theory Spec2Isabelle
  imports Main
begin

section \<open>Python values\<close>

text \<open>
  The request context, the right operand of a constraint and the asset data are JSON
  values as Python holds them after parsing: \<open>None\<close>, \<open>bool\<close>, \<open>int\<close>, \<open>str\<close>,
  \<open>list\<close> and \<open>dict\<close> (string keys, in insertion order). Floating-point numbers are
  left out. A string is a list of 8-bit characters; \<open>upper\<close>, \<open>lower\<close> and \<open>repr\<close> below
  are those of Python on ASCII strings, and every property that depends on them is stated
  for ASCII strings (\<open>ascii\<close>, at the end of this section).
\<close>

datatype pyval =
    VNone
  | VBool bool
  | VInt int
  | VStr string
  | VList "pyval list"
  | VDict "(string \<times> pyval) list"

datatype py_error = TypeError | AttributeError

text \<open>\<open>bool\<close> is a subclass of \<open>int\<close>: \<open>True == 1\<close> and \<open>False < 2\<close>.\<close>

fun py_num :: "pyval \<Rightarrow> int option" where
  "py_num (VBool b) = Some (if b then 1 else 0)"
| "py_num (VInt i) = Some i"
| "py_num _ = None"

text \<open>Python's \<open>==\<close> on these values; two dicts are equal when they have the same
  keys with equal values, whatever the insertion order.\<close>

fun py_eq :: "pyval \<Rightarrow> pyval \<Rightarrow> bool"
  and py_eq_list :: "pyval list \<Rightarrow> pyval list \<Rightarrow> bool"
  and py_eq_items :: "(string \<times> pyval) list \<Rightarrow> (string \<times> pyval) list \<Rightarrow> bool"
where
  "py_eq VNone w = (w = VNone)"
| "py_eq (VBool a) w = (py_num w = Some (if a then 1 else 0))"
| "py_eq (VInt i) w = (py_num w = Some i)"
| "py_eq (VStr s) w = (w = VStr s)"
| "py_eq (VList xs) w = (case w of VList ys \<Rightarrow> py_eq_list xs ys | _ \<Rightarrow> False)"
| "py_eq (VDict d) w =
     (case w of VDict e \<Rightarrow> length d = length e \<and> py_eq_items d e | _ \<Rightarrow> False)"
| "py_eq_list [] ys = (ys = [])"
| "py_eq_list (x # xs) ys =
     (case ys of [] \<Rightarrow> False | y # ys' \<Rightarrow> py_eq x y \<and> py_eq_list xs ys')"
| "py_eq_items [] e = True"
| "py_eq_items (kv # d) e =
     ((case map_of e (fst kv) of None \<Rightarrow> False | Some w \<Rightarrow> py_eq (snd kv) w)
      \<and> py_eq_items d e)"

text \<open>\<open>x in ys\<close> for a list \<open>ys\<close>.\<close>

definition py_in :: "pyval \<Rightarrow> pyval list \<Rightarrow> bool" where
  "py_in x ys = list_ex (\<lambda>y. py_eq y x) ys"

text \<open>Truthiness, as \<open>if not data\<close> tests it.\<close>

fun py_truthy :: "pyval \<Rightarrow> bool" where
  "py_truthy VNone = False"
| "py_truthy (VBool b) = b"
| "py_truthy (VInt i) = (i \<noteq> 0)"
| "py_truthy (VStr s) = (s \<noteq> [])"
| "py_truthy (VList xs) = (xs \<noteq> [])"
| "py_truthy (VDict d) = (d \<noteq> [])"

text \<open>Hashable values, which \<open>set(...)\<close> accepts as elements.\<close>

fun py_hashable :: "pyval \<Rightarrow> bool" where
  "py_hashable (VList xs) = False"
| "py_hashable (VDict d) = False"
| "py_hashable _ = True"

subsection \<open>Ordered comparison\<close>

datatype cmp_op = OpGt | OpLt | OpGte | OpLte

fun cmp_int :: "cmp_op \<Rightarrow> int \<Rightarrow> int \<Rightarrow> bool" where
  "cmp_int OpGt a b = (a > b)"
| "cmp_int OpLt a b = (a < b)"
| "cmp_int OpGte a b = (a \<ge> b)"
| "cmp_int OpLte a b = (a \<le> b)"

text \<open>Strings compare lexicographically by code point.\<close>

fun cmp_str :: "cmp_op \<Rightarrow> string \<Rightarrow> string \<Rightarrow> bool" where
  "cmp_str opr (a # s) (b # t) =
     (if a = b then cmp_str opr s t else cmp_int opr (of_char a) (of_char b))"
| "cmp_str opr s t = cmp_int opr (int (length s)) (int (length t))"

text \<open>
  Numbers compare with numbers, strings with strings, lists with lists (the first pair
  of unequal items decides, then the lengths); every other pairing raises
  \<open>TypeError\<close>.
\<close>

fun py_cmp :: "cmp_op \<Rightarrow> pyval \<Rightarrow> pyval \<Rightarrow> py_error + bool"
  and py_cmp_list :: "cmp_op \<Rightarrow> pyval list \<Rightarrow> pyval list \<Rightarrow> py_error + bool"
where
  "py_cmp opr (VBool a) w =
     (case py_num w of Some j \<Rightarrow> Inr (cmp_int opr (if a then 1 else 0) j) | None \<Rightarrow> Inl TypeError)"
| "py_cmp opr (VInt i) w =
     (case py_num w of Some j \<Rightarrow> Inr (cmp_int opr i j) | None \<Rightarrow> Inl TypeError)"
| "py_cmp opr (VStr s) w =
     (case w of VStr t \<Rightarrow> Inr (cmp_str opr s t) | _ \<Rightarrow> Inl TypeError)"
| "py_cmp opr (VList xs) w =
     (case w of VList ys \<Rightarrow> py_cmp_list opr xs ys | _ \<Rightarrow> Inl TypeError)"
| "py_cmp opr VNone w = Inl TypeError"
| "py_cmp opr (VDict d) w = Inl TypeError"
| "py_cmp_list opr [] ys = Inr (cmp_int opr 0 (int (length ys)))"
| "py_cmp_list opr (x # xs) ys =
     (case ys of
        [] \<Rightarrow> Inr (cmp_int opr (int (Suc (length xs))) 0)
      | y # ys' \<Rightarrow> if py_eq x y then py_cmp_list opr xs ys' else py_cmp opr x y)"

subsection \<open>\<open>str\<close> and \<open>repr\<close>\<close>

fun show_nat :: "nat \<Rightarrow> string" where
  "show_nat n =
     (if n < 10 then [''0123456789'' ! n]
      else show_nat (n div 10) @ [''0123456789'' ! (n mod 10)])"

declare show_nat.simps [simp del]

definition show_int :: "int \<Rightarrow> string" where
  "show_int i = (if i < 0 then CHR ''-'' # show_nat (nat (- i)) else show_nat (nat i))"

definition hex2 :: "nat \<Rightarrow> string" where
  "hex2 n = [''0123456789abcdef'' ! (n div 16), ''0123456789abcdef'' ! (n mod 16)]"

text \<open>\<open>repr\<close> of a string: single quotes, unless the string holds a single quote and
  no double quote; the quote and the backslash are escaped, control characters are
  written \<open>\t\<close>, \<open>\n\<close>, \<open>\r\<close> or \<open>\xNN\<close>.\<close>

definition repr_char :: "char \<Rightarrow> char \<Rightarrow> string" where
  "repr_char q ch =
     (if ch = q \<or> ch = CHR 0x5C then [CHR 0x5C, ch]
      else if ch = CHR 0x09 then [CHR 0x5C, CHR ''t'']
      else if ch = CHR 0x0A then [CHR 0x5C, CHR ''n'']
      else if ch = CHR 0x0D then [CHR 0x5C, CHR ''r'']
      else if (of_char ch :: nat) < 32 \<or> (of_char ch :: nat) = 127
        then [CHR 0x5C, CHR ''x''] @ hex2 (of_char ch)
      else [ch])"

definition repr_str :: "string \<Rightarrow> string" where
  "repr_str s =
     (let q = (if CHR 0x27 \<in> set s \<and> CHR 0x22 \<notin> set s then CHR 0x22 else CHR 0x27)
      in [q] @ concat (map (repr_char q) s) @ [q])"

fun join :: "string \<Rightarrow> string list \<Rightarrow> string" where
  "join sep [] = []"
| "join sep [x] = x"
| "join sep (x # y # xs) = x @ sep @ join sep (y # xs)"

fun py_repr :: "pyval \<Rightarrow> string"
  and py_repr_list :: "pyval list \<Rightarrow> string list"
  and py_repr_items :: "(string \<times> pyval) list \<Rightarrow> string list"
where
  "py_repr VNone = ''None''"
| "py_repr (VBool b) = (if b then ''True'' else ''False'')"
| "py_repr (VInt i) = show_int i"
| "py_repr (VStr s) = repr_str s"
| "py_repr (VList xs) = ''['' @ join '', '' (py_repr_list xs) @ '']''"
| "py_repr (VDict d) = ''{'' @ join '', '' (py_repr_items d) @ ''}''"
| "py_repr_list [] = []"
| "py_repr_list (x # xs) = py_repr x # py_repr_list xs"
| "py_repr_items [] = []"
| "py_repr_items (kv # d) = (repr_str (fst kv) @ '': '' @ py_repr (snd kv)) # py_repr_items d"

fun py_str :: "pyval \<Rightarrow> string" where
  "py_str (VStr s) = s"
| "py_str v = py_repr v"

text \<open>\<open>r in s\<close> for two strings: \<open>r\<close> occurs in \<open>s\<close> as a contiguous run.\<close>

fun starts_with :: "string \<Rightarrow> string \<Rightarrow> bool" where
  "starts_with [] s = True"
| "starts_with (a # r) [] = False"
| "starts_with (a # r) (b # s) = (a = b \<and> starts_with r s)"

fun str_contains :: "string \<Rightarrow> string \<Rightarrow> bool" where
  "str_contains r [] = (r = [])"
| "str_contains r (b # s) = (starts_with r (b # s) \<or> str_contains r s)"

text \<open>\<open>str.upper\<close> and \<open>str.lower\<close> of an ASCII string: the letters \<open>a\<close> to \<open>z\<close>
  and \<open>A\<close> to \<open>Z\<close> change case, every other ASCII character stays.\<close>

definition upper_char :: "char \<Rightarrow> char" where
  "upper_char ch =
     (case map_of (zip ''abcdefghijklmnopqrstuvwxyz'' ''ABCDEFGHIJKLMNOPQRSTUVWXYZ'') ch of
        Some u \<Rightarrow> u | None \<Rightarrow> ch)"

definition lower_char :: "char \<Rightarrow> char" where
  "lower_char ch =
     (case map_of (zip ''ABCDEFGHIJKLMNOPQRSTUVWXYZ'' ''abcdefghijklmnopqrstuvwxyz'') ch of
        Some u \<Rightarrow> u | None \<Rightarrow> ch)"

definition upper :: "string \<Rightarrow> string" where
  "upper s = map upper_char s"

definition lower :: "string \<Rightarrow> string" where
  "lower s = map lower_char s"

text \<open>The strings and the values in which every character is an ASCII character, that
  is a character whose eighth bit is not set.\<close>

definition ascii :: "string \<Rightarrow> bool" where
  "ascii s = list_all (\<lambda>ch. \<not> digit7 ch) s"

fun ascii_val :: "pyval \<Rightarrow> bool"
  and ascii_vals :: "pyval list \<Rightarrow> bool"
  and ascii_items :: "(string \<times> pyval) list \<Rightarrow> bool"
where
  "ascii_val (VStr s) = ascii s"
| "ascii_val (VList xs) = ascii_vals xs"
| "ascii_val (VDict d) = ascii_items d"
| "ascii_val VNone = True"
| "ascii_val (VBool b) = True"
| "ascii_val (VInt i) = True"
| "ascii_vals [] = True"
| "ascii_vals (x # xs) = (ascii_val x \<and> ascii_vals xs)"
| "ascii_items [] = True"
| "ascii_items (kv # d) = (ascii (fst kv) \<and> ascii_val (snd kv) \<and> ascii_items d)"

section \<open>Policy model (shared/models.py)\<close>

record constraint =
  left_operand :: string
  operator :: string
  right_operand :: pyval

record permission =
  perm_action :: string
  perm_constraints :: "constraint list"

record prohibition =
  proh_action :: string
  proh_constraints :: "constraint list"

text \<open>The obligations of a policy are informational and never read by the evaluator;
  they are not part of the record.\<close>

record policy =
  p_id :: string
  permissions :: "permission list"
  prohibitions :: "prohibition list"

text \<open>One entry of the evaluation trace: the dict with the keys \<open>constraint\<close>,
  \<open>context_value\<close> and \<open>satisfied\<close>.\<close>

record trace_entry =
  e_constraint :: string
  e_context_value :: pyval
  e_satisfied :: bool

record policy_evaluation_result =
  allowed :: bool
  reason :: string
  evaluated_constraints :: "trace_entry list"

text \<open>The request context is a dict from attribute names to values; \<open>context.get(k)\<close>
  is \<open>map_of ctx k\<close>.\<close>

type_synonym req_context = "(string \<times> pyval) list"

section \<open>Policy evaluator (shared/policies.py)\<close>

text \<open>\<open>set(left) & set(right)\<close> is non-empty; building either set raises
  \<open>TypeError\<close> on an unhashable element.\<close>

definition py_sets_intersect :: "pyval list \<Rightarrow> pyval list \<Rightarrow> py_error + bool" where
  "py_sets_intersect xs ys =
     (if list_all py_hashable xs \<and> list_all py_hashable ys
      then Inr (list_ex (\<lambda>x. py_in x ys) xs)
      else Inl TypeError)"

definition evaluate_single_constraint :: "constraint \<Rightarrow> req_context \<Rightarrow> py_error + bool" where
  "evaluate_single_constraint c ctx =
     (case map_of ctx (left_operand c) of
        None \<Rightarrow> Inr False
      | Some VNone \<Rightarrow> Inr False
      | Some left_value \<Rightarrow>
          (let right_value = right_operand c; opr = lower (operator c) in
           if opr = ''eq'' then Inr (py_eq left_value right_value)
           else if opr = ''neq'' then Inr (\<not> py_eq left_value right_value)
           else if opr = ''in'' then
             (case right_value of VList ys \<Rightarrow> Inr (py_in left_value ys) | _ \<Rightarrow> Inr False)
           else if opr = ''gt'' then py_cmp OpGt left_value right_value
           else if opr = ''lt'' then py_cmp OpLt left_value right_value
           else if opr = ''gte'' then py_cmp OpGte left_value right_value
           else if opr = ''lte'' then py_cmp OpLte left_value right_value
           else if opr = ''contains'' then
             (case left_value of
                VList xs \<Rightarrow> Inr (py_in right_value xs)
              | _ \<Rightarrow> (case right_value of
                         VStr r \<Rightarrow> Inr (str_contains r (py_str left_value))
                       | _ \<Rightarrow> Inl TypeError))
           else if opr = ''has_any'' then
             (case left_value of
                VList xs \<Rightarrow> (case right_value of
                               VList ys \<Rightarrow> py_sets_intersect xs ys
                             | _ \<Rightarrow> Inr False)
              | _ \<Rightarrow> Inr False)
           else Inr False))"

text \<open>The text and the observed value recorded for a constraint.\<close>

definition constraint_text :: "constraint \<Rightarrow> string" where
  "constraint_text c = left_operand c @ '' '' @ operator c @ '' '' @ py_str (right_operand c)"

definition context_value :: "constraint \<Rightarrow> req_context \<Rightarrow> pyval" where
  "context_value c ctx =
     (case map_of ctx (left_operand c) of None \<Rightarrow> VStr ''NOT_PROVIDED'' | Some v \<Rightarrow> v)"

fun evaluate_constraints :: "constraint list \<Rightarrow> req_context \<Rightarrow> py_error + trace_entry list" where
  "evaluate_constraints [] ctx = Inr []"
| "evaluate_constraints (c # cs) ctx =
     (case evaluate_single_constraint c ctx of
        Inl err \<Rightarrow> Inl err
      | Inr satisfied \<Rightarrow>
          (case evaluate_constraints cs ctx of
             Inl err \<Rightarrow> Inl err
           | Inr results \<Rightarrow>
               Inr (\<lparr>e_constraint = constraint_text c,
                     e_context_value = context_value c ctx,
                     e_satisfied = satisfied\<rparr> # results)))"

text \<open>\<open>context.get("action", "USE")\<close>.\<close>

definition request_action :: "req_context \<Rightarrow> pyval" where
  "request_action ctx = (case map_of ctx ''action'' of None \<Rightarrow> VStr ''USE'' | Some v \<Rightarrow> v)"

text \<open>\<open>policy_action.upper() == request_action.upper()\<close>; only a string has
  \<open>upper\<close>.\<close>

fun action_matches :: "string \<Rightarrow> pyval \<Rightarrow> py_error + bool" where
  "action_matches policy_action (VStr request) = Inr (upper policy_action = upper request)"
| "action_matches policy_action v = Inl AttributeError"

text \<open>
  The loop over the prohibitions. \<open>acc\<close> is the local list \<open>evaluated_constraints\<close>.
  The loop either returns from \<open>evaluate\<close> (\<open>Inl\<close> of the result) or ends with the
  list accumulated so far.
\<close>

fun evaluate_prohibitions ::
  "prohibition list \<Rightarrow> req_context \<Rightarrow> trace_entry list
     \<Rightarrow> py_error + (policy_evaluation_result + trace_entry list)" where
  "evaluate_prohibitions [] ctx acc = Inr (Inr acc)"
| "evaluate_prohibitions (q # qs) ctx acc =
     (case action_matches (proh_action q) (request_action ctx) of
        Inl err \<Rightarrow> Inl err
      | Inr False \<Rightarrow> evaluate_prohibitions qs ctx acc
      | Inr True \<Rightarrow>
          (case evaluate_constraints (proh_constraints q) ctx of
             Inl err \<Rightarrow> Inl err
           | Inr constraint_results \<Rightarrow>
               if list_all e_satisfied constraint_results
               then Inr (Inl \<lparr>allowed = False,
                               reason = ''Action '' @ [CHR 0x27] @ proh_action q @ [CHR 0x27] @ '' is prohibited'',
                               evaluated_constraints = constraint_results\<rparr>)
               else evaluate_prohibitions qs ctx (acc @ constraint_results)))"

text \<open>The loop over the permissions and the default denial after it.\<close>

fun evaluate_permissions ::
  "permission list \<Rightarrow> req_context \<Rightarrow> trace_entry list \<Rightarrow> py_error + policy_evaluation_result" where
  "evaluate_permissions [] ctx acc =
     Inr \<lparr>allowed = False, reason = ''No matching permission found'',
          evaluated_constraints = acc\<rparr>"
| "evaluate_permissions (p # ps) ctx acc =
     (case action_matches (perm_action p) (request_action ctx) of
        Inl err \<Rightarrow> Inl err
      | Inr False \<Rightarrow> evaluate_permissions ps ctx acc
      | Inr True \<Rightarrow>
          if perm_constraints p = []
          then Inr \<lparr>allowed = True, reason = ''Permission granted (no constraints)'',
                    evaluated_constraints = acc\<rparr>
          else
            (case evaluate_constraints (perm_constraints p) ctx of
               Inl err \<Rightarrow> Inl err
             | Inr constraint_results \<Rightarrow>
                 if list_all e_satisfied constraint_results
                 then Inr \<lparr>allowed = True, reason = ''All permission constraints satisfied'',
                           evaluated_constraints = acc @ constraint_results\<rparr>
                 else evaluate_permissions ps ctx (acc @ constraint_results)))"

definition evaluate :: "policy \<Rightarrow> req_context \<Rightarrow> py_error + policy_evaluation_result" where
  "evaluate pol ctx =
     (case evaluate_prohibitions (prohibitions pol) ctx [] of
        Inl err \<Rightarrow> Inl err
      | Inr (Inl res) \<Rightarrow> Inr res
      | Inr (Inr acc) \<Rightarrow> evaluate_permissions (permissions pol) ctx acc)"

subsection \<open>Vocabulary for the properties of the evaluator\<close>

text \<open>A constraint check comes out true, and a constraint check raises.\<close>

definition is_satisfied :: "constraint \<Rightarrow> req_context \<Rightarrow> bool" where
  "is_satisfied c ctx = (evaluate_single_constraint c ctx = Inr True)"

definition check_raises :: "constraint \<Rightarrow> req_context \<Rightarrow> bool" where
  "check_raises c ctx = isl (evaluate_single_constraint c ctx)"

text \<open>The trace entry that \<open>_evaluate_constraints\<close> appends for a constraint.\<close>

definition constraint_record :: "req_context \<Rightarrow> constraint \<Rightarrow> trace_entry" where
  "constraint_record ctx c =
     \<lparr>e_constraint = constraint_text c,
      e_context_value = context_value c ctx,
      e_satisfied = is_satisfied c ctx\<rparr>"

text \<open>A prohibition blocks the request: its action matches and none of its constraints
  is unsatisfied. A permission grants it under the same condition.\<close>

definition proh_blocks :: "req_context \<Rightarrow> prohibition \<Rightarrow> bool" where
  "proh_blocks ctx q =
     (action_matches (proh_action q) (request_action ctx) = Inr True
      \<and> list_all (\<lambda>c. is_satisfied c ctx) (proh_constraints q))"

definition perm_grants :: "req_context \<Rightarrow> permission \<Rightarrow> bool" where
  "perm_grants ctx p =
     (action_matches (perm_action p) (request_action ctx) = Inr True
      \<and> list_all (\<lambda>c. is_satisfied c ctx) (perm_constraints p))"

text \<open>
  A rule raises when it is looked at: the comparison of its action with the requested
  action raises, or its action matches and the check of one of its constraints raises
  (\<open>_evaluate_constraints\<close> checks every constraint of the rule, also after one that is
  not satisfied).
\<close>

definition proh_raises :: "req_context \<Rightarrow> prohibition \<Rightarrow> bool" where
  "proh_raises ctx q =
     (case action_matches (proh_action q) (request_action ctx) of
        Inl err \<Rightarrow> True
      | Inr matches \<Rightarrow> matches \<and> list_ex (\<lambda>c. check_raises c ctx) (proh_constraints q))"

definition perm_raises :: "req_context \<Rightarrow> permission \<Rightarrow> bool" where
  "perm_raises ctx p =
     (case action_matches (perm_action p) (request_action ctx) of
        Inl err \<Rightarrow> True
      | Inr matches \<Rightarrow> matches \<and> list_ex (\<lambda>c. check_raises c ctx) (perm_constraints p))"

text \<open>
  A step of the evaluation raises: one of the prohibitions before the first that blocks
  raises, or no prohibition blocks and one of the permissions before the first that
  grants raises. The rules after the one that decides are not looked at.
\<close>

definition evaluation_raises :: "policy \<Rightarrow> req_context \<Rightarrow> bool" where
  "evaluation_raises pol ctx =
     (list_ex (proh_raises ctx) (takeWhile (\<lambda>q. \<not> proh_blocks ctx q) (prohibitions pol))
      \<or> (\<not> list_ex (proh_blocks ctx) (prohibitions pol)
          \<and> list_ex (perm_raises ctx)
                (takeWhile (\<lambda>p. \<not> perm_grants ctx p) (permissions pol))))"

text \<open>The strings that the evaluator reads in a policy and in a context are ASCII.\<close>

definition ascii_constraint :: "constraint \<Rightarrow> bool" where
  "ascii_constraint c =
     (ascii (left_operand c) \<and> ascii (operator c) \<and> ascii_val (right_operand c))"

definition ascii_policy :: "policy \<Rightarrow> bool" where
  "ascii_policy pol =
     (list_all (\<lambda>p. ascii (perm_action p) \<and> list_all ascii_constraint (perm_constraints p))
        (permissions pol)
      \<and> list_all (\<lambda>q. ascii (proh_action q) \<and> list_all ascii_constraint (proh_constraints q))
          (prohibitions pol))"

definition ascii_context :: "req_context \<Rightarrow> bool" where
  "ascii_context ctx = ascii_items ctx"

text \<open>
  The constraints handed to \<open>_evaluate_single_constraint\<close> during a call of
  \<open>evaluate\<close>, in the order of the calls: the same traversal as \<open>evaluate\<close>, keeping the
  constraints instead of the results.
\<close>

fun checked_of :: "constraint list \<Rightarrow> req_context \<Rightarrow> constraint list" where
  "checked_of [] ctx = []"
| "checked_of (c # cs) ctx = c # (if check_raises c ctx then [] else checked_of cs ctx)"

fun checked_prohibitions :: "prohibition list \<Rightarrow> req_context \<Rightarrow> constraint list" where
  "checked_prohibitions [] ctx = []"
| "checked_prohibitions (q # qs) ctx =
     (case action_matches (proh_action q) (request_action ctx) of
        Inl err \<Rightarrow> []
      | Inr False \<Rightarrow> checked_prohibitions qs ctx
      | Inr True \<Rightarrow>
          checked_of (proh_constraints q) ctx @
          (case evaluate_constraints (proh_constraints q) ctx of
             Inl err \<Rightarrow> []
           | Inr constraint_results \<Rightarrow>
               if list_all e_satisfied constraint_results then []
               else checked_prohibitions qs ctx))"

fun checked_permissions :: "permission list \<Rightarrow> req_context \<Rightarrow> constraint list" where
  "checked_permissions [] ctx = []"
| "checked_permissions (p # ps) ctx =
     (case action_matches (perm_action p) (request_action ctx) of
        Inl err \<Rightarrow> []
      | Inr False \<Rightarrow> checked_permissions ps ctx
      | Inr True \<Rightarrow>
          if perm_constraints p = [] then []
          else
            checked_of (perm_constraints p) ctx @
            (case evaluate_constraints (perm_constraints p) ctx of
               Inl err \<Rightarrow> []
             | Inr constraint_results \<Rightarrow>
                 if list_all e_satisfied constraint_results then []
                 else checked_permissions ps ctx))"

definition checked_constraints :: "policy \<Rightarrow> req_context \<Rightarrow> constraint list" where
  "checked_constraints pol ctx =
     checked_prohibitions (prohibitions pol) ctx @
     (case evaluate_prohibitions (prohibitions pol) ctx [] of
        Inr (Inr acc) \<Rightarrow> checked_permissions (permissions pol) ctx
      | _ \<Rightarrow> [])"

subsection \<open>Policy templates\<close>

definition TIER1_SUPPLIER_ONLY_POLICY :: policy where
  "TIER1_SUPPLIER_ONLY_POLICY =
     \<lparr>p_id = ''policy-tier1-only'',
      permissions =
        [\<lparr>perm_action = ''USE'',
          perm_constraints =
            [\<lparr>left_operand = ''partner_type'', operator = ''eq'',
              right_operand = VStr ''tier1_supplier''\<rparr>]\<rparr>],
      prohibitions = [\<lparr>proh_action = ''DISTRIBUTE'', proh_constraints = []\<rparr>]\<rparr>"

definition CERTIFIED_PARTNERS_POLICY :: policy where
  "CERTIFIED_PARTNERS_POLICY =
     \<lparr>p_id = ''policy-certified-partners'',
      permissions =
        [\<lparr>perm_action = ''USE'',
          perm_constraints =
            [\<lparr>left_operand = ''certification'', operator = ''has_any'',
              right_operand = VList [VStr ''TISAX'', VStr ''ISO27001'']\<rparr>]\<rparr>],
      prohibitions =
        [\<lparr>proh_action = ''DISTRIBUTE'', proh_constraints = []\<rparr>,
         \<lparr>proh_action = ''MODIFY'', proh_constraints = []\<rparr>]\<rparr>"

definition EU_REGION_POLICY :: policy where
  "EU_REGION_POLICY =
     \<lparr>p_id = ''policy-eu-region'',
      permissions =
        [\<lparr>perm_action = ''USE'',
          perm_constraints =
            [\<lparr>left_operand = ''region'', operator = ''in'',
              right_operand = VList [VStr ''EU'', VStr ''EEA'']\<rparr>]\<rparr>],
      prohibitions = [\<lparr>proh_action = ''DISTRIBUTE'', proh_constraints = []\<rparr>]\<rparr>"

definition QUALITY_DATA_POLICY :: policy where
  "QUALITY_DATA_POLICY =
     \<lparr>p_id = ''policy-quality-data'',
      permissions =
        [\<lparr>perm_action = ''USE'',
          perm_constraints =
            [\<lparr>left_operand = ''partner_type'', operator = ''in'',
              right_operand = VList [VStr ''tier1_supplier'', VStr ''tier2_supplier'']\<rparr>,
             \<lparr>left_operand = ''purpose'', operator = ''eq'',
              right_operand = VStr ''quality_analysis''\<rparr>]\<rparr>],
      prohibitions =
        [\<lparr>proh_action = ''DISTRIBUTE'', proh_constraints = []\<rparr>,
         \<lparr>proh_action = ''ARCHIVE'', proh_constraints = []\<rparr>]\<rparr>"

definition TRACEABILITY_POLICY :: policy where
  "TRACEABILITY_POLICY =
     \<lparr>p_id = ''policy-traceability'',
      permissions =
        [\<lparr>perm_action = ''USE'',
          perm_constraints =
            [\<lparr>left_operand = ''certification'', operator = ''contains'',
              right_operand = VStr ''IATF16949''\<rparr>]\<rparr>],
      prohibitions = []\<rparr>"

definition OPEN_ACCESS_POLICY :: policy where
  "OPEN_ACCESS_POLICY =
     \<lparr>p_id = ''policy-open-access'',
      permissions = [\<lparr>perm_action = ''USE'', perm_constraints = []\<rparr>],
      prohibitions = [\<lparr>proh_action = ''DISTRIBUTE'', proh_constraints = []\<rparr>]\<rparr>"

definition POLICY_TEMPLATES :: "(string \<times> policy) list" where
  "POLICY_TEMPLATES =
     [(''tier1-only'', TIER1_SUPPLIER_ONLY_POLICY),
      (''certified-partners'', CERTIFIED_PARTNERS_POLICY),
      (''eu-region'', EU_REGION_POLICY),
      (''quality-data'', QUALITY_DATA_POLICY),
      (''traceability'', TRACEABILITY_POLICY),
      (''open-access'', OPEN_ACCESS_POLICY)]"

definition perm_description :: "permission \<Rightarrow> string" where
  "perm_description perm =
     ''Allows '' @ perm_action perm @
     (if perm_constraints perm \<noteq> []
      then '' when: '' @ join '' AND '' (map constraint_text (perm_constraints perm))
      else [])"

definition get_policy_description :: "policy \<Rightarrow> string" where
  "get_policy_description pol =
     (let descriptions =
            map perm_description (permissions pol) @
            map (\<lambda>prohib. ''Prohibits '' @ proh_action prohib) (prohibitions pol)
      in if descriptions \<noteq> [] then join ''; '' descriptions else ''No restrictions'')"

section \<open>Provider store (provider-connector/store.py)\<close>

datatype negotiation_state = REQUESTED | OFFERED | AGREED | VERIFIED | FINALIZED | TERMINATED

fun negotiation_state_str :: "negotiation_state \<Rightarrow> string" where
  "negotiation_state_str REQUESTED = ''REQUESTED''"
| "negotiation_state_str OFFERED = ''OFFERED''"
| "negotiation_state_str AGREED = ''AGREED''"
| "negotiation_state_str VERIFIED = ''VERIFIED''"
| "negotiation_state_str FINALIZED = ''FINALIZED''"
| "negotiation_state_str TERMINATED = ''TERMINATED''"

datatype transfer_state = T_REQUESTED | T_STARTED | T_SUSPENDED | T_COMPLETED | T_TERMINATED

fun transfer_state_str :: "transfer_state \<Rightarrow> string" where
  "transfer_state_str T_REQUESTED = ''REQUESTED''"
| "transfer_state_str T_STARTED = ''STARTED''"
| "transfer_state_str T_SUSPENDED = ''SUSPENDED''"
| "transfer_state_str T_COMPLETED = ''COMPLETED''"
| "transfer_state_str T_TERMINATED = ''TERMINATED''"

text \<open>
  The records of the store are Python dicts; a key that a dict may lack is an
  \<open>option\<close> field. Of an asset only the keys read by the negotiation and transfer
  handlers are kept.
\<close>

record asset =
  a_id :: string
  a_name :: string
  a_policy_id :: "string option"
  a_data_file :: "string option"

record history_entry =
  h_state :: negotiation_state
  h_timestamp :: string
  h_actor :: string
  h_policy_evaluation :: "string option"
  h_reason :: "string option"
  h_agreement_id :: "string option"

record stored_evaluation =
  se_allowed :: bool
  se_reason :: "string option"
  se_evaluated_constraints :: "trace_entry list"

record negotiation =
  n_id :: string
  n_state :: negotiation_state
  n_provider_id :: string
  n_consumer_id :: string
  n_asset_id :: string
  n_policy_id :: "string option"
  n_consumer_attributes :: "req_context option"
  n_callback_address :: "string option"
  n_created_at :: string
  n_updated_at :: string
  n_state_history :: "history_entry list"
  n_policy_evaluation :: "stored_evaluation option"
  n_agreement_id :: "string option"

record agreement =
  ag_id :: string
  ag_negotiation_id :: string
  ag_asset_id :: string
  ag_policy_id :: "string option"
  ag_policy_description :: string
  ag_provider_id :: string
  ag_consumer_id :: string
  ag_signing_date :: string
  ag_status :: string

record transfer_history_entry =
  th_state :: transfer_state
  th_timestamp :: string
  th_data_size :: "nat option"

record transfer =
  t_id :: string
  t_state :: transfer_state
  t_agreement_id :: string
  t_asset_id :: string
  t_provider_id :: string
  t_consumer_id :: string
  t_data_destination :: "string option"
  t_format :: "string option"
  t_created_at :: string
  t_started_at :: "string option"
  t_completed_at :: "string option"
  t_data :: "pyval option"
  t_state_history :: "transfer_history_entry list"

record audit_event =
  ev_timestamp :: string
  ev_event :: string
  ev_details :: pyval

record store =
  assets :: "asset list"
  negotiations :: "string \<rightharpoonup> negotiation"
  agreements :: "string \<rightharpoonup> agreement"
  transfers :: "string \<rightharpoonup> transfer"
  audit_log :: "audit_event list"

text \<open>
  What a handler takes from outside the store: \<open>clk i\<close> is the \<open>i\<close>-th reading of
  \<open>datetime.utcnow().isoformat()\<close> during the call, \<open>uuid_hex\<close> the \<open>hex\<close> of the
  \<open>uuid4()\<close> it draws, and \<open>files\<close> the sample-data directory, from a file name to the
  JSON value parsed from the file. A file of the directory is taken to be readable and
  to hold well-formed JSON; a name that the directory does not have is a missing file.
\<close>

type_synonym clock = "nat \<Rightarrow> string"

definition log_event :: "string \<Rightarrow> (string \<times> string) list \<Rightarrow> string \<Rightarrow> store \<Rightarrow> store" where
  "log_event event_type details t s =
     s\<lparr>audit_log := audit_log s @
          [\<lparr>ev_timestamp = t, ev_event = event_type,
            ev_details = VDict (map (\<lambda>kv. (fst kv, VStr (snd kv))) details)\<rparr>]\<rparr>"

definition sample_assets :: "asset list" where
  "sample_assets =
     [\<lparr>a_id = ''part-catalog-2024'', a_name = ''2024 Vehicle Part Catalog'',
       a_policy_id = Some ''tier1-only'', a_data_file = Some ''part-catalog.json''\<rparr>,
      \<lparr>a_id = ''quality-metrics-q4'', a_name = ''Q4 2024 Quality Metrics'',
       a_policy_id = Some ''quality-data'', a_data_file = Some ''quality-data.json''\<rparr>,
      \<lparr>a_id = ''traceability-batch-001'', a_name = ''Battery Traceability Data'',
       a_policy_id = Some ''certified-partners'',
       a_data_file = Some ''traceability-data.json''\<rparr>]"

definition initialize_store :: "clock \<Rightarrow> store" where
  "initialize_store clk =
     \<lparr>assets = sample_assets,
      negotiations = Map.empty,
      agreements = Map.empty,
      transfers = Map.empty,
      audit_log =
        [\<lparr>ev_timestamp = clk 0, ev_event = ''STORE_INITIALIZED'',
          ev_details =
            VStr (''Initialized with '' @ show_nat (length sample_assets) @ '' assets'')\<rparr>]\<rparr>"

definition get_asset_by_id :: "store \<Rightarrow> string \<Rightarrow> asset option" where
  "get_asset_by_id s asset_id = find (\<lambda>a. a_id a = asset_id) (assets s)"

text \<open>\<open>None\<close> is Python's \<open>None\<close>: no such asset, no data file named, no such file, or
  a file holding \<open>null\<close>.\<close>

definition get_asset_data :: "(string \<rightharpoonup> pyval) \<Rightarrow> store \<Rightarrow> string \<Rightarrow> pyval option" where
  "get_asset_data files s asset_id =
     (case get_asset_by_id s asset_id of
        None \<Rightarrow> None
      | Some a \<Rightarrow>
          (case a_data_file a of
             None \<Rightarrow> None
           | Some data_file \<Rightarrow>
               if data_file = [] then None
               else (case files data_file of Some VNone \<Rightarrow> None | r \<Rightarrow> r)))"

definition save_negotiation :: "negotiation \<Rightarrow> string \<Rightarrow> store \<Rightarrow> store" where
  "save_negotiation n t s =
     log_event ''NEGOTIATION_SAVED''
       [(''negotiation_id'', n_id n), (''state'', negotiation_state_str (n_state n))] t
       (s\<lparr>negotiations := (negotiations s)(n_id n \<mapsto> n)\<rparr>)"

definition get_negotiation :: "store \<Rightarrow> string \<Rightarrow> negotiation option" where
  "get_negotiation s negotiation_id = negotiations s negotiation_id"

definition save_agreement :: "agreement \<Rightarrow> string \<Rightarrow> store \<Rightarrow> store" where
  "save_agreement a t s =
     log_event ''AGREEMENT_SAVED'' [(''agreement_id'', ag_id a)] t
       (s\<lparr>agreements := (agreements s)(ag_id a \<mapsto> a)\<rparr>)"

definition get_agreement :: "store \<Rightarrow> string \<Rightarrow> agreement option" where
  "get_agreement s agreement_id = agreements s agreement_id"

definition save_transfer :: "transfer \<Rightarrow> string \<Rightarrow> store \<Rightarrow> store" where
  "save_transfer tr t s =
     log_event ''TRANSFER_SAVED''
       [(''transfer_id'', t_id tr), (''state'', transfer_state_str (t_state tr))] t
       (s\<lparr>transfers := (transfers s)(t_id tr \<mapsto> tr)\<rparr>)"

definition get_transfer :: "store \<Rightarrow> string \<Rightarrow> transfer option" where
  "get_transfer s transfer_id = transfers s transfer_id"

section \<open>Contract negotiation (provider-connector/contracts.py)\<close>

text \<open>
  A handler either returns its response dict or raises. \<open>HTTPException\<close> carries the
  status code and the \<open>error\<close> and \<open>message\<close> of its detail; \<open>Uncaught\<close> is a Python
  exception that no handler catches. Every handler returns the store as it is when
  the handler ends, also when it raises. Of a response the keys \<open>@context\<close>,
  \<open>message\<close>, \<open>next_action\<close> and \<open>hint\<close>, which hold fixed text, are left out.
\<close>

datatype failure = HTTPException nat string "string option" | Uncaught py_error

type_synonym response = "(string \<times> pyval) list"

definition quoted :: "string \<Rightarrow> string" where
  "quoted s = [CHR 0x27] @ s @ [CHR 0x27]"

definition entry_dict :: "trace_entry \<Rightarrow> pyval" where
  "entry_dict e =
     VDict [(''constraint'', VStr (e_constraint e)),
            (''context_value'', e_context_value e),
            (''satisfied'', VBool (e_satisfied e))]"

record negotiation_request =
  rq_consumer_id :: string
  rq_asset_id :: string
  rq_consumer_attributes :: "req_context option"
  rq_callback_address :: "string option"

record negotiation_action =
  na_consumer_attributes :: "req_context option"

text \<open>\<open>negotiation.get("policy_id", "open-access")\<close> looked up in the templates.\<close>

definition negotiation_policy :: "negotiation \<Rightarrow> policy option" where
  "negotiation_policy n =
     map_of POLICY_TEMPLATES (case n_policy_id n of None \<Rightarrow> ''open-access'' | Some pid \<Rightarrow> pid)"

definition initiate_negotiation ::
  "negotiation_request \<Rightarrow> string \<Rightarrow> clock \<Rightarrow> store \<Rightarrow> (failure + response) \<times> store" where
  "initiate_negotiation request uuid_hex clk s =
     (case get_asset_by_id s (rq_asset_id request) of
        None \<Rightarrow>
          (Inl (HTTPException 404 ''ASSET_NOT_FOUND''
                  (Some (''Asset '' @ quoted (rq_asset_id request) @ '' not found''))), s)
      | Some asset \<Rightarrow>
          (let policy_id = (case a_policy_id asset of None \<Rightarrow> ''open-access'' | Some pid \<Rightarrow> pid)
           in case map_of POLICY_TEMPLATES policy_id of
                None \<Rightarrow>
                  (Inl (HTTPException 500 ''POLICY_NOT_FOUND''
                          (Some (''Policy '' @ quoted policy_id @ '' not configured''))), s)
              | Some pol \<Rightarrow>
                  (let negotiation_id = ''negotiation-'' @ take 8 uuid_hex;
                       now = clk 0;
                       negotiation =
                         \<lparr>n_id = negotiation_id,
                          n_state = REQUESTED,
                          n_provider_id = ''provider-automotors-oem'',
                          n_consumer_id = rq_consumer_id request,
                          n_asset_id = rq_asset_id request,
                          n_policy_id = Some policy_id,
                          n_consumer_attributes =
                            Some (case rq_consumer_attributes request of
                                    None \<Rightarrow> [] | Some attrs \<Rightarrow> attrs),
                          n_callback_address = rq_callback_address request,
                          n_created_at = now,
                          n_updated_at = now,
                          n_state_history =
                            [\<lparr>h_state = REQUESTED, h_timestamp = now,
                              h_actor = rq_consumer_id request,
                              h_policy_evaluation = None, h_reason = None,
                              h_agreement_id = None\<rparr>],
                          n_policy_evaluation = None,
                          n_agreement_id = None\<rparr>;
                       s1 = save_negotiation negotiation (clk 1) s;
                       s2 = log_event ''NEGOTIATION_INITIATED''
                              [(''negotiation_id'', negotiation_id),
                               (''consumer_id'', rq_consumer_id request),
                               (''asset_id'', rq_asset_id request)] (clk 2) s1
                   in (Inr [(''@type'', VStr ''dspace:ContractNegotiation''),
                            (''@id'', VStr negotiation_id),
                            (''dspace:state'', VStr ''REQUESTED''),
                            (''dspace:providerPid'', VStr ''provider-automotors-oem''),
                            (''dspace:consumerPid'', VStr (rq_consumer_id request)),
                            (''asset_id'', VStr (rq_asset_id request)),
                            (''policy'',
                             VDict [(''id'', VStr (p_id pol)),
                                    (''description'', VStr (get_policy_description pol))])],
                       s2))))"

text \<open>
  The call \<open>policy_evaluator.evaluate(policy, consumer_attrs)\<close> of the offer handler,
  where either argument can be \<open>None\<close>: \<open>policy.prohibitions\<close> then raises, and so
  does \<open>context.get\<close> as soon as a loop of \<open>evaluate\<close> has a rule to look at.
\<close>

definition evaluate_call ::
  "policy option \<Rightarrow> req_context option \<Rightarrow> py_error + policy_evaluation_result" where
  "evaluate_call pol consumer_attrs =
     (case pol of
        None \<Rightarrow> Inl AttributeError
      | Some p \<Rightarrow>
          (case consumer_attrs of
             Some ctx \<Rightarrow> evaluate p ctx
           | None \<Rightarrow>
               if prohibitions p = [] \<and> permissions p = []
               then Inr \<lparr>allowed = False, reason = ''No matching permission found'',
                         evaluated_constraints = []\<rparr>
               else Inl AttributeError))"

definition provider_offer ::
  "string \<Rightarrow> negotiation_action option \<Rightarrow> clock \<Rightarrow> store \<Rightarrow> (failure + response) \<times> store" where
  "provider_offer negotiation_id action clk s =
     (case get_negotiation s negotiation_id of
        None \<Rightarrow> (Inl (HTTPException 404 ''NEGOTIATION_NOT_FOUND'' None), s)
      | Some negotiation \<Rightarrow>
          if n_state negotiation \<noteq> REQUESTED
          then (Inl (HTTPException 400 ''INVALID_STATE''
                       (Some (''Cannot offer in state '' @
                              quoted (negotiation_state_str (n_state negotiation)) @
                              ''. Expected '' @ quoted ''REQUESTED'' @ ''.''))), s)
          else
            (let pol = negotiation_policy negotiation;
                 consumer_attrs =
                   (case action of
                      Some a \<Rightarrow> na_consumer_attributes a
                    | None \<Rightarrow>
                        (case n_consumer_attributes negotiation of
                           None \<Rightarrow> Some [] | Some attrs \<Rightarrow> Some attrs))
             in case evaluate_call pol consumer_attrs of
                  Inl err \<Rightarrow> (Inl (Uncaught err), s)
                | Inr result \<Rightarrow>
                    (let now = clk 0 in
                     if allowed result
                     then
                       (let negotiation' =
                              negotiation
                                \<lparr>n_state := OFFERED,
                                 n_updated_at := now,
                                 n_state_history :=
                                   n_state_history negotiation @
                                   [\<lparr>h_state = OFFERED, h_timestamp = now,
                                     h_actor = ''provider-automotors-oem'',
                                     h_policy_evaluation = Some ''PASSED'',
                                     h_reason = None, h_agreement_id = None\<rparr>],
                                 n_policy_evaluation :=
                                   Some \<lparr>se_allowed = True, se_reason = None,
                                         se_evaluated_constraints =
                                           evaluated_constraints result\<rparr>\<rparr>;
                            s1 = s\<lparr>negotiations :=
                                     (negotiations s)(negotiation_id \<mapsto> negotiation')\<rparr>;
                            s2 = save_negotiation negotiation' (clk 1) s1;
                            s3 = log_event ''OFFER_MADE''
                                   [(''negotiation_id'', negotiation_id)] (clk 2) s2
                        in (Inr [(''@type'', VStr ''dspace:ContractOfferMessage''),
                                 (''dspace:providerPid'', VStr (n_provider_id negotiation')),
                                 (''dspace:consumerPid'', VStr (n_consumer_id negotiation')),
                                 (''dspace:state'', VStr ''OFFERED''),
                                 (''policy_evaluation'',
                                  VDict [(''result'', VStr ''ALLOWED''),
                                         (''reason'', VStr (reason result)),
                                         (''constraints_checked'',
                                          VList (map entry_dict
                                                   (evaluated_constraints result)))])],
                            s3))
                     else
                       (let negotiation' =
                              negotiation
                                \<lparr>n_state := TERMINATED,
                                 n_updated_at := now,
                                 n_state_history :=
                                   n_state_history negotiation @
                                   [\<lparr>h_state = TERMINATED, h_timestamp = now,
                                     h_actor = ''provider-automotors-oem'',
                                     h_policy_evaluation = Some ''FAILED'',
                                     h_reason = Some (reason result),
                                     h_agreement_id = None\<rparr>],
                                 n_policy_evaluation :=
                                   Some \<lparr>se_allowed = False,
                                         se_reason = Some (reason result),
                                         se_evaluated_constraints =
                                           evaluated_constraints result\<rparr>\<rparr>;
                            s1 = s\<lparr>negotiations :=
                                     (negotiations s)(negotiation_id \<mapsto> negotiation')\<rparr>;
                            s2 = save_negotiation negotiation' (clk 1) s1;
                            s3 = log_event ''NEGOTIATION_TERMINATED''
                                   [(''negotiation_id'', negotiation_id),
                                    (''reason'', reason result)] (clk 2) s2
                        in (Inr [(''@type'',
                                  VStr ''dspace:ContractNegotiationTerminationMessage''),
                                 (''dspace:providerPid'', VStr (n_provider_id negotiation')),
                                 (''dspace:consumerPid'', VStr (n_consumer_id negotiation')),
                                 (''dspace:state'', VStr ''TERMINATED''),
                                 (''policy_evaluation'',
                                  VDict [(''result'', VStr ''DENIED''),
                                         (''reason'', VStr (reason result)),
                                         (''constraints_checked'',
                                          VList (map entry_dict
                                                   (evaluated_constraints result)))])],
                            s3)))))"

definition consumer_agree ::
  "string \<Rightarrow> clock \<Rightarrow> store \<Rightarrow> (failure + response) \<times> store" where
  "consumer_agree negotiation_id clk s =
     (case get_negotiation s negotiation_id of
        None \<Rightarrow> (Inl (HTTPException 404 ''NEGOTIATION_NOT_FOUND'' None), s)
      | Some negotiation \<Rightarrow>
          if n_state negotiation \<noteq> OFFERED
          then (Inl (HTTPException 400 ''INVALID_STATE''
                       (Some (''Cannot agree in state '' @
                              quoted (negotiation_state_str (n_state negotiation)) @
                              ''. Expected '' @ quoted ''OFFERED'' @ ''.''))), s)
          else
            (let now = clk 0;
                 negotiation' =
                   negotiation
                     \<lparr>n_state := AGREED,
                      n_updated_at := now,
                      n_state_history :=
                        n_state_history negotiation @
                        [\<lparr>h_state = AGREED, h_timestamp = now,
                          h_actor = n_consumer_id negotiation,
                          h_policy_evaluation = None, h_reason = None,
                          h_agreement_id = None\<rparr>]\<rparr>;
                 s1 = s\<lparr>negotiations := (negotiations s)(negotiation_id \<mapsto> negotiation')\<rparr>;
                 s2 = save_negotiation negotiation' (clk 1) s1;
                 s3 = log_event ''CONSUMER_AGREED''
                        [(''negotiation_id'', negotiation_id)] (clk 2) s2
             in (Inr [(''@type'', VStr ''dspace:ContractAgreementMessage''),
                      (''dspace:providerPid'', VStr (n_provider_id negotiation')),
                      (''dspace:consumerPid'', VStr (n_consumer_id negotiation')),
                      (''dspace:state'', VStr ''AGREED'')],
                 s3)))"

definition verify_agreement ::
  "string \<Rightarrow> clock \<Rightarrow> store \<Rightarrow> (failure + response) \<times> store" where
  "verify_agreement negotiation_id clk s =
     (case get_negotiation s negotiation_id of
        None \<Rightarrow> (Inl (HTTPException 404 ''NEGOTIATION_NOT_FOUND'' None), s)
      | Some negotiation \<Rightarrow>
          if n_state negotiation \<noteq> AGREED
          then (Inl (HTTPException 400 ''INVALID_STATE''
                       (Some (''Cannot verify in state '' @
                              quoted (negotiation_state_str (n_state negotiation)) @
                              ''. Expected '' @ quoted ''AGREED'' @ ''.''))), s)
          else
            (let now = clk 0;
                 negotiation' =
                   negotiation
                     \<lparr>n_state := VERIFIED,
                      n_updated_at := now,
                      n_state_history :=
                        n_state_history negotiation @
                        [\<lparr>h_state = VERIFIED, h_timestamp = now,
                          h_actor = ''system'',
                          h_policy_evaluation = None, h_reason = None,
                          h_agreement_id = None\<rparr>]\<rparr>;
                 s1 = s\<lparr>negotiations := (negotiations s)(negotiation_id \<mapsto> negotiation')\<rparr>;
                 s2 = save_negotiation negotiation' (clk 1) s1;
                 s3 = log_event ''AGREEMENT_VERIFIED''
                        [(''negotiation_id'', negotiation_id)] (clk 2) s2
             in (Inr [(''@type'', VStr ''dspace:ContractAgreementVerificationMessage''),
                      (''dspace:providerPid'', VStr (n_provider_id negotiation')),
                      (''dspace:consumerPid'', VStr (n_consumer_id negotiation')),
                      (''dspace:state'', VStr ''VERIFIED'')],
                 s3)))"

definition finalize_agreement ::
  "string \<Rightarrow> string \<Rightarrow> clock \<Rightarrow> store \<Rightarrow> (failure + response) \<times> store" where
  "finalize_agreement negotiation_id uuid_hex clk s =
     (case get_negotiation s negotiation_id of
        None \<Rightarrow> (Inl (HTTPException 404 ''NEGOTIATION_NOT_FOUND'' None), s)
      | Some negotiation \<Rightarrow>
          if n_state negotiation \<noteq> VERIFIED
          then (Inl (HTTPException 400 ''INVALID_STATE''
                       (Some (''Cannot finalize in state '' @
                              quoted (negotiation_state_str (n_state negotiation)) @
                              ''. Expected '' @ quoted ''VERIFIED'' @ ''.''))), s)
          else
            (let now = clk 0;
                 agreement_id = ''agreement-'' @ take 8 uuid_hex;
                 pol = negotiation_policy negotiation;
                 agreement =
                   \<lparr>ag_id = agreement_id,
                    ag_negotiation_id = negotiation_id,
                    ag_asset_id = n_asset_id negotiation,
                    ag_policy_id = n_policy_id negotiation,
                    ag_policy_description =
                      (case pol of Some p \<Rightarrow> get_policy_description p | None \<Rightarrow> ''Unknown''),
                    ag_provider_id = n_provider_id negotiation,
                    ag_consumer_id = n_consumer_id negotiation,
                    ag_signing_date = now,
                    ag_status = ''ACTIVE''\<rparr>;
                 s1 = save_agreement agreement (clk 1) s;
                 negotiation' =
                   negotiation
                     \<lparr>n_state := FINALIZED,
                      n_updated_at := now,
                      n_agreement_id := Some agreement_id,
                      n_state_history :=
                        n_state_history negotiation @
                        [\<lparr>h_state = FINALIZED, h_timestamp = now,
                          h_actor = ''system'',
                          h_policy_evaluation = None, h_reason = None,
                          h_agreement_id = Some agreement_id\<rparr>]\<rparr>;
                 s2 = s1\<lparr>negotiations := (negotiations s1)(negotiation_id \<mapsto> negotiation')\<rparr>;
                 s3 = save_negotiation negotiation' (clk 2) s2;
                 s4 = log_event ''AGREEMENT_FINALIZED''
                        [(''negotiation_id'', negotiation_id),
                         (''agreement_id'', agreement_id)] (clk 3) s3
             in (Inr [(''@type'', VStr ''dspace:ContractNegotiationEventMessage''),
                      (''dspace:providerPid'', VStr (n_provider_id negotiation')),
                      (''dspace:consumerPid'', VStr (n_consumer_id negotiation')),
                      (''dspace:state'', VStr ''FINALIZED''),
                      (''dspace:eventType'', VStr ''FINALIZED''),
                      (''agreement'',
                       VDict [(''id'', VStr agreement_id),
                              (''asset_id'', VStr (ag_asset_id agreement)),
                              (''policy'', VStr (ag_policy_description agreement)),
                              (''signing_date'', VStr (ag_signing_date agreement))])],
                 s4)))"

definition terminate_negotiation ::
  "string \<Rightarrow> clock \<Rightarrow> store \<Rightarrow> (failure + response) \<times> store" where
  "terminate_negotiation negotiation_id clk s =
     (case get_negotiation s negotiation_id of
        None \<Rightarrow> (Inl (HTTPException 404 ''NEGOTIATION_NOT_FOUND'' None), s)
      | Some negotiation \<Rightarrow>
          if n_state negotiation \<in> set [FINALIZED, TERMINATED]
          then (Inl (HTTPException 400 ''INVALID_STATE''
                       (Some (''Negotiation already in final state '' @
                              quoted (negotiation_state_str (n_state negotiation))))), s)
          else
            (let now = clk 0;
                 negotiation' =
                   negotiation
                     \<lparr>n_state := TERMINATED,
                      n_updated_at := now,
                      n_state_history :=
                        n_state_history negotiation @
                        [\<lparr>h_state = TERMINATED, h_timestamp = now,
                          h_actor = ''user'',
                          h_policy_evaluation = None,
                          h_reason = Some ''User requested termination'',
                          h_agreement_id = None\<rparr>]\<rparr>;
                 s1 = s\<lparr>negotiations := (negotiations s)(negotiation_id \<mapsto> negotiation')\<rparr>;
                 s2 = save_negotiation negotiation' (clk 1) s1;
                 s3 = log_event ''NEGOTIATION_TERMINATED''
                        [(''negotiation_id'', negotiation_id),
                         (''reason'', ''User request'')] (clk 2) s2
             in (Inr [(''@type'', VStr ''dspace:ContractNegotiationTerminationMessage''),
                      (''dspace:providerPid'', VStr (n_provider_id negotiation')),
                      (''dspace:consumerPid'', VStr (n_consumer_id negotiation')),
                      (''dspace:state'', VStr ''TERMINATED'')],
                 s3)))"

section \<open>Transfer process (provider-connector/transfers.py)\<close>

record transfer_request =
  tq_agreement_id :: string
  tq_data_destination :: "string option"
  tq_format :: "string option"

definition initiate_transfer ::
  "transfer_request \<Rightarrow> string \<Rightarrow> clock \<Rightarrow> store \<Rightarrow> (failure + response) \<times> store" where
  "initiate_transfer request uuid_hex clk s =
     (case get_agreement s (tq_agreement_id request) of
        None \<Rightarrow>
          (Inl (HTTPException 404 ''AGREEMENT_NOT_FOUND''
                  (Some (''Agreement '' @ quoted (tq_agreement_id request) @ '' not found''))),
           s)
      | Some agreement \<Rightarrow>
          if ag_status agreement \<noteq> ''ACTIVE''
          then (Inl (HTTPException 400 ''AGREEMENT_NOT_ACTIVE''
                       (Some ''Agreement is not active'')), s)
          else
            (let transfer_id = ''transfer-'' @ take 8 uuid_hex;
                 now = clk 0;
                 tr =
                   \<lparr>t_id = transfer_id,
                    t_state = T_REQUESTED,
                    t_agreement_id = tq_agreement_id request,
                    t_asset_id = ag_asset_id agreement,
                    t_provider_id = ag_provider_id agreement,
                    t_consumer_id = ag_consumer_id agreement,
                    t_data_destination = tq_data_destination request,
                    t_format = tq_format request,
                    t_created_at = now,
                    t_started_at = None,
                    t_completed_at = None,
                    t_data = None,
                    t_state_history =
                      [\<lparr>th_state = T_REQUESTED, th_timestamp = now, th_data_size = None\<rparr>]\<rparr>;
                 s1 = save_transfer tr (clk 1) s;
                 s2 = log_event ''TRANSFER_INITIATED''
                        [(''transfer_id'', transfer_id),
                         (''agreement_id'', tq_agreement_id request)] (clk 2) s1
             in (Inr [(''@type'', VStr ''dspace:TransferProcess''),
                      (''@id'', VStr transfer_id),
                      (''dspace:state'', VStr ''REQUESTED''),
                      (''dspace:agreementId'', VStr (tq_agreement_id request)),
                      (''asset_id'', VStr (ag_asset_id agreement))],
                 s2)))"

definition start_transfer ::
  "string \<Rightarrow> clock \<Rightarrow> store \<Rightarrow> (failure + response) \<times> store" where
  "start_transfer transfer_id clk s =
     (case get_transfer s transfer_id of
        None \<Rightarrow> (Inl (HTTPException 404 ''TRANSFER_NOT_FOUND'' None), s)
      | Some tr \<Rightarrow>
          if t_state tr \<noteq> T_REQUESTED
          then (Inl (HTTPException 400 ''INVALID_STATE''
                       (Some (''Cannot start in state '' @
                              quoted (transfer_state_str (t_state tr)) @
                              ''. Expected '' @ quoted ''REQUESTED'' @ ''.''))), s)
          else
            (let now = clk 0;
                 tr' = tr\<lparr>t_state := T_STARTED,
                          t_started_at := Some now,
                          t_state_history :=
                            t_state_history tr @
                            [\<lparr>th_state = T_STARTED, th_timestamp = now,
                              th_data_size = None\<rparr>]\<rparr>;
                 s1 = s\<lparr>transfers := (transfers s)(transfer_id \<mapsto> tr')\<rparr>;
                 s2 = save_transfer tr' (clk 1) s1;
                 s3 = log_event ''TRANSFER_STARTED'' [(''transfer_id'', transfer_id)] (clk 2) s2
             in (Inr [(''@type'', VStr ''dspace:TransferStartMessage''),
                      (''dspace:providerPid'', VStr (t_provider_id tr')),
                      (''dspace:consumerPid'', VStr (t_consumer_id tr')),
                      (''dspace:state'', VStr ''STARTED'')],
                 s3)))"

definition complete_transfer ::
  "(string \<rightharpoonup> pyval) \<Rightarrow> string \<Rightarrow> clock \<Rightarrow> store \<Rightarrow> (failure + response) \<times> store" where
  "complete_transfer files transfer_id clk s =
     (case get_transfer s transfer_id of
        None \<Rightarrow> (Inl (HTTPException 404 ''TRANSFER_NOT_FOUND'' None), s)
      | Some tr \<Rightarrow>
          if t_state tr \<noteq> T_STARTED
          then (Inl (HTTPException 400 ''INVALID_STATE''
                       (Some (''Cannot complete in state '' @
                              quoted (transfer_state_str (t_state tr)) @
                              ''. Expected '' @ quoted ''STARTED'' @ ''.''))), s)
          else
            (case get_asset_data files s (t_asset_id tr) of
               None \<Rightarrow>
                 (Inl (HTTPException 500 ''DATA_NOT_AVAILABLE''
                         (Some ''Could not load asset data'')), s)
             | Some data \<Rightarrow>
                 if \<not> py_truthy data
                 then (Inl (HTTPException 500 ''DATA_NOT_AVAILABLE''
                              (Some ''Could not load asset data'')), s)
                 else
                   (let now = clk 0;
                        tr' = tr\<lparr>t_state := T_COMPLETED,
                                 t_completed_at := Some now,
                                 t_data := Some data,
                                 t_state_history :=
                                   t_state_history tr @
                                   [\<lparr>th_state = T_COMPLETED, th_timestamp = now,
                                     th_data_size = Some (length (py_str data))\<rparr>]\<rparr>;
                        s1 = s\<lparr>transfers := (transfers s)(transfer_id \<mapsto> tr')\<rparr>;
                        s2 = save_transfer tr' (clk 1) s1;
                        s3 = log_event ''TRANSFER_COMPLETED''
                               [(''transfer_id'', transfer_id),
                                (''asset_id'', t_asset_id tr')] (clk 2) s2;
                        asset = get_asset_by_id s3 (t_asset_id tr')
                    in (Inr [(''@type'', VStr ''dspace:TransferCompletionMessage''),
                             (''dspace:providerPid'', VStr (t_provider_id tr')),
                             (''dspace:consumerPid'', VStr (t_consumer_id tr')),
                             (''dspace:state'', VStr ''COMPLETED''),
                             (''asset'',
                              VDict [(''id'',
                                      VStr (case asset of Some a \<Rightarrow> a_id a
                                            | None \<Rightarrow> t_asset_id tr')),
                                     (''name'',
                                      VStr (case asset of Some a \<Rightarrow> a_name a
                                            | None \<Rightarrow> ''Unknown''))]),
                             (''data_endpoint'',
                              VStr (''/api/transfers/'' @ transfer_id @ ''/data''))],
                        s3))))"

definition suspend_transfer ::
  "string \<Rightarrow> clock \<Rightarrow> store \<Rightarrow> (failure + response) \<times> store" where
  "suspend_transfer transfer_id clk s =
     (case get_transfer s transfer_id of
        None \<Rightarrow> (Inl (HTTPException 404 ''TRANSFER_NOT_FOUND'' None), s)
      | Some tr \<Rightarrow>
          if t_state tr \<noteq> T_STARTED
          then (Inl (HTTPException 400 ''INVALID_STATE''
                       (Some (''Cannot suspend in state '' @
                              quoted (transfer_state_str (t_state tr))))), s)
          else
            (let now = clk 0;
                 tr' = tr\<lparr>t_state := T_SUSPENDED,
                          t_state_history :=
                            t_state_history tr @
                            [\<lparr>th_state = T_SUSPENDED, th_timestamp = now,
                              th_data_size = None\<rparr>]\<rparr>;
                 s1 = s\<lparr>transfers := (transfers s)(transfer_id \<mapsto> tr')\<rparr>;
                 s2 = save_transfer tr' (clk 1) s1;
                 s3 = log_event ''TRANSFER_SUSPENDED'' [(''transfer_id'', transfer_id)] (clk 2) s2
             in (Inr [(''@type'', VStr ''dspace:TransferProcess''),
                      (''dspace:state'', VStr ''SUSPENDED'')],
                 s3)))"

definition terminate_transfer ::
  "string \<Rightarrow> clock \<Rightarrow> store \<Rightarrow> (failure + response) \<times> store" where
  "terminate_transfer transfer_id clk s =
     (case get_transfer s transfer_id of
        None \<Rightarrow> (Inl (HTTPException 404 ''TRANSFER_NOT_FOUND'' None), s)
      | Some tr \<Rightarrow>
          if t_state tr \<in> set [T_COMPLETED, T_TERMINATED]
          then (Inl (HTTPException 400 ''INVALID_STATE''
                       (Some (''Transfer already in final state '' @
                              quoted (transfer_state_str (t_state tr))))), s)
          else
            (let now = clk 0;
                 tr' = tr\<lparr>t_state := T_TERMINATED,
                          t_state_history :=
                            t_state_history tr @
                            [\<lparr>th_state = T_TERMINATED, th_timestamp = now,
                              th_data_size = None\<rparr>]\<rparr>;
                 s1 = s\<lparr>transfers := (transfers s)(transfer_id \<mapsto> tr')\<rparr>;
                 s2 = save_transfer tr' (clk 1) s1;
                 s3 = log_event ''TRANSFER_TERMINATED'' [(''transfer_id'', transfer_id)] (clk 2) s2
             in (Inr [(''@type'', VStr ''dspace:TransferTerminationMessage''),
                      (''dspace:state'', VStr ''TERMINATED'')],
                 s3)))"

section \<open>The provider as a state machine\<close>

text \<open>
  The requests that change the store, as the routers of \<open>main.py\<close> dispatch them, each
  with what it draws from the clock and from \<open>uuid4\<close>.
\<close>

datatype api_call =
    InitiateNegotiation negotiation_request string
  | ProviderOffer string "negotiation_action option"
  | ConsumerAgree string
  | VerifyAgreement string
  | FinalizeAgreement string string
  | TerminateNegotiation string
  | InitiateTransfer transfer_request string
  | StartTransfer string
  | CompleteTransfer string
  | SuspendTransfer string
  | TerminateTransfer string
  | ResetDemo

fun handle ::
  "(string \<rightharpoonup> pyval) \<Rightarrow> api_call \<Rightarrow> clock \<Rightarrow> store \<Rightarrow> (failure + response) \<times> store" where
  "handle files (InitiateNegotiation request uuid_hex) clk s =
     initiate_negotiation request uuid_hex clk s"
| "handle files (ProviderOffer nid action) clk s = provider_offer nid action clk s"
| "handle files (ConsumerAgree nid) clk s = consumer_agree nid clk s"
| "handle files (VerifyAgreement nid) clk s = verify_agreement nid clk s"
| "handle files (FinalizeAgreement nid uuid_hex) clk s = finalize_agreement nid uuid_hex clk s"
| "handle files (TerminateNegotiation nid) clk s = terminate_negotiation nid clk s"
| "handle files (InitiateTransfer request uuid_hex) clk s =
     initiate_transfer request uuid_hex clk s"
| "handle files (StartTransfer tid) clk s = start_transfer tid clk s"
| "handle files (CompleteTransfer tid) clk s = complete_transfer files tid clk s"
| "handle files (SuspendTransfer tid) clk s = suspend_transfer tid clk s"
| "handle files (TerminateTransfer tid) clk s = terminate_transfer tid clk s"
| "handle files ResetDemo clk s =
     (Inr [(''status'', VStr ''reset'')], initialize_store clk)"

text \<open>
  \<open>uuid4\<close> is taken to draw an identifier that is not in use: the eight hex digits
  kept of it name no negotiation of the store when a negotiation is created, and no
  agreement when an agreement is. The id drawn for a transfer is left free.
\<close>

fun draws_unused :: "api_call \<Rightarrow> store \<Rightarrow> bool" where
  "draws_unused (InitiateNegotiation request uuid_hex) s =
     (negotiations s (''negotiation-'' @ take 8 uuid_hex) = None)"
| "draws_unused (FinalizeAgreement nid uuid_hex) s =
     (agreements s (''agreement-'' @ take 8 uuid_hex) = None)"
| "draws_unused call s = True"

text \<open>The consumer attributes that a request carries are ASCII.\<close>

fun ascii_call :: "api_call \<Rightarrow> bool" where
  "ascii_call (InitiateNegotiation request uuid_hex) =
     (case rq_consumer_attributes request of None \<Rightarrow> True | Some attrs \<Rightarrow> ascii_context attrs)"
| "ascii_call (ProviderOffer nid action) =
     (case action of
        None \<Rightarrow> True
      | Some a \<Rightarrow>
          (case na_consumer_attributes a of None \<Rightarrow> True | Some attrs \<Rightarrow> ascii_context attrs))"
| "ascii_call call = True"

text \<open>The stores the provider can be in: the store after start-up, and the store after
  any such request handled in such a store.\<close>

inductive reachable :: "(string \<rightharpoonup> pyval) \<Rightarrow> store \<Rightarrow> bool" for files where
  startup: "reachable files (initialize_store clk)"
| request: "reachable files s \<Longrightarrow> draws_unused call s \<Longrightarrow> ascii_call call
            \<Longrightarrow> reachable files (snd (handle files call clk s))"

subsection \<open>Vocabulary for the properties of the provider\<close>

text \<open>The reason given when a prohibition blocks the request.\<close>

definition prohibited_reason :: "prohibition \<Rightarrow> string" where
  "prohibited_reason q =
     ''Action '' @ [CHR 0x27] @ proh_action q @ [CHR 0x27] @ '' is prohibited''"

text \<open>
  The invariant of the store: every negotiation is filed under its own id, and every
  agreement belongs to a finalized negotiation that names it.
\<close>

definition store_inv :: "store \<Rightarrow> bool" where
  "store_inv s =
     ((\<forall>nid n. negotiations s nid = Some n \<longrightarrow> n_id n = nid)
      \<and> (\<forall>k a. agreements s k = Some a \<longrightarrow>
            (\<exists>n. negotiations s (ag_negotiation_id a) = Some n
                 \<and> n_state n = FINALIZED \<and> n_agreement_id n = Some k)))"

text \<open>
  What a guarded transition does to the store: the agreements stay, and either the
  negotiations stay too or the negotiation \<open>nid\<close>, which was not finalized, is
  rewritten in place, keeping its id and its policy id, and filed again under its id.
\<close>

definition guarded_update :: "store \<Rightarrow> string \<Rightarrow> store \<Rightarrow> bool" where
  "guarded_update s nid s' =
     (agreements s' = agreements s \<and>
      (negotiations s' = negotiations s \<or>
       (case negotiations s nid of
          None \<Rightarrow> False
        | Some n \<Rightarrow> n_state n \<noteq> FINALIZED \<and>
            (case negotiations s' nid of
               None \<Rightarrow> False
             | Some n' \<Rightarrow> n_id n' = n_id n \<and> n_policy_id n' = n_policy_id n \<and>
                 negotiations s' = (negotiations s)(nid \<mapsto> n', n_id n' \<mapsto> n')))))"

text \<open>The negotiation \<open>nid\<close> of the store is bound to the policy id \<open>pid\<close>.\<close>

definition bound_to :: "store \<Rightarrow> string \<Rightarrow> string \<Rightarrow> bool" where
  "bound_to s nid pid =
     (case negotiations s nid of None \<Rightarrow> False | Some n \<Rightarrow> n_policy_id n = Some pid)"

text \<open>The negotiation and the agreement that a successful finalize writes.\<close>

definition finalized :: "negotiation \<Rightarrow> string \<Rightarrow> string \<Rightarrow> negotiation" where
  "finalized n aid now =
     n\<lparr>n_state := FINALIZED, n_updated_at := now, n_agreement_id := Some aid,
       n_state_history := n_state_history n @
         [\<lparr>h_state = FINALIZED, h_timestamp = now, h_actor = ''system'',
           h_policy_evaluation = None, h_reason = None, h_agreement_id = Some aid\<rparr>]\<rparr>"

definition issued :: "string \<Rightarrow> negotiation \<Rightarrow> string \<Rightarrow> string \<Rightarrow> agreement" where
  "issued nid n aid now =
     \<lparr>ag_id = aid, ag_negotiation_id = nid, ag_asset_id = n_asset_id n,
      ag_policy_id = n_policy_id n,
      ag_policy_description =
        (case negotiation_policy n of
           Some p \<Rightarrow> get_policy_description p | None \<Rightarrow> ''Unknown''),
      ag_provider_id = n_provider_id n, ag_consumer_id = n_consumer_id n,
      ag_signing_date = now, ag_status = ''ACTIVE''\<rparr>"

subsection \<open>Concrete inputs\<close>

definition age_over_18 :: constraint where
  "age_over_18 = \<lparr>left_operand = ''age'', operator = ''gt'', right_operand = VInt 18\<rparr>"

definition region_is_eu :: constraint where
  "region_is_eu = \<lparr>left_operand = ''region'', operator = ''eq'', right_operand = VStr ''EU''\<rparr>"

text \<open>Two prohibitions of \<open>USE\<close>: the first under a constraint, the second without.\<close>

definition age_gated_policy :: policy where
  "age_gated_policy =
     \<lparr>p_id = ''policy-age-gated'',
      permissions = [\<lparr>perm_action = ''USE'', perm_constraints = []\<rparr>],
      prohibitions =
        [\<lparr>proh_action = ''USE'', proh_constraints = [age_over_18]\<rparr>,
         \<lparr>proh_action = ''USE'', proh_constraints = []\<rparr>]\<rparr>"

definition region_gated_policy :: policy where
  "region_gated_policy =
     \<lparr>p_id = ''policy-region-gated'',
      permissions = [],
      prohibitions =
        [\<lparr>proh_action = ''USE'', proh_constraints = [region_is_eu]\<rparr>,
         \<lparr>proh_action = ''USE'', proh_constraints = []\<rparr>]\<rparr>"

definition empty_policy :: policy where
  "empty_policy = \<lparr>p_id = ''policy-empty'', permissions = [], prohibitions = []\<rparr>"

text \<open>Two permissions of \<open>USE\<close>: the first without a constraint, the second under one.\<close>

definition open_then_age_gated_policy :: policy where
  "open_then_age_gated_policy =
     \<lparr>p_id = ''policy-open-then-age-gated'',
      permissions =
        [\<lparr>perm_action = ''USE'', perm_constraints = []\<rparr>,
         \<lparr>perm_action = ''USE'', perm_constraints = [age_over_18]\<rparr>],
      prohibitions = []\<rparr>"

text \<open>The context of the spec's scenario B.\<close>

definition cost_reduction_context :: req_context where
  "cost_reduction_context =
     [(''partner_type'', VStr ''tier1_supplier''), (''purpose'', VStr ''cost_reduction'')]"

definition fixed_clock :: clock where
  "fixed_clock i = ''2024-12-01T00:00:00''"

text \<open>A negotiation, an agreement and a transfer of the first sample asset, and stores
  that hold them.\<close>

definition example_negotiation :: "negotiation_state \<Rightarrow> negotiation" where
  "example_negotiation st =
     \<lparr>n_id = ''negotiation-0a1b2c3d'',
      n_state = st,
      n_provider_id = ''provider-automotors-oem'',
      n_consumer_id = ''consumer-tierone'',
      n_asset_id = ''part-catalog-2024'',
      n_policy_id = Some ''tier1-only'',
      n_consumer_attributes = Some [(''partner_type'', VStr ''tier1_supplier'')],
      n_callback_address = None,
      n_created_at = fixed_clock 0,
      n_updated_at = fixed_clock 0,
      n_state_history =
        [\<lparr>h_state = REQUESTED, h_timestamp = fixed_clock 0, h_actor = ''consumer-tierone'',
          h_policy_evaluation = None, h_reason = None, h_agreement_id = None\<rparr>],
      n_policy_evaluation = None,
      n_agreement_id = None\<rparr>"

definition negotiation_store :: "negotiation_state \<Rightarrow> store" where
  "negotiation_store st =
     (initialize_store fixed_clock)
       \<lparr>negotiations := [''negotiation-0a1b2c3d'' \<mapsto> example_negotiation st]\<rparr>"

definition example_agreement :: "string \<Rightarrow> agreement" where
  "example_agreement status =
     \<lparr>ag_id = ''agreement-4e5f6a7b'',
      ag_negotiation_id = ''negotiation-0a1b2c3d'',
      ag_asset_id = ''part-catalog-2024'',
      ag_policy_id = Some ''tier1-only'',
      ag_policy_description = get_policy_description TIER1_SUPPLIER_ONLY_POLICY,
      ag_provider_id = ''provider-automotors-oem'',
      ag_consumer_id = ''consumer-tierone'',
      ag_signing_date = fixed_clock 0,
      ag_status = status\<rparr>"

definition agreement_store :: "string \<Rightarrow> store" where
  "agreement_store status =
     (initialize_store fixed_clock)
       \<lparr>agreements := [''agreement-4e5f6a7b'' \<mapsto> example_agreement status]\<rparr>"

definition example_transfer :: "transfer_state \<Rightarrow> transfer" where
  "example_transfer st =
     \<lparr>t_id = ''transfer-8c9d0e1f'',
      t_state = st,
      t_agreement_id = ''agreement-4e5f6a7b'',
      t_asset_id = ''part-catalog-2024'',
      t_provider_id = ''provider-automotors-oem'',
      t_consumer_id = ''consumer-tierone'',
      t_data_destination = None,
      t_format = Some ''HTTP_PUSH'',
      t_created_at = fixed_clock 0,
      t_started_at = None,
      t_completed_at = None,
      t_data = None,
      t_state_history =
        [\<lparr>th_state = T_REQUESTED, th_timestamp = fixed_clock 0, th_data_size = None\<rparr>]\<rparr>"

definition transfer_store :: "transfer_state \<Rightarrow> store" where
  "transfer_store st =
     (initialize_store fixed_clock)
       \<lparr>transfers := [''transfer-8c9d0e1f'' \<mapsto> example_transfer st]\<rparr>"

definition part_catalog :: pyval where
  "part_catalog = VDict [(''parts'', VList [VStr ''battery-pack''])]"

definition sample_files :: "string \<rightharpoonup> pyval" where
  "sample_files = [''part-catalog.json'' \<mapsto> part_catalog]"

text \<open>A directory in which the file of the part catalog holds the empty object \<open>{}\<close>.\<close>

definition empty_catalog_files :: "string \<rightharpoonup> pyval" where
  "empty_catalog_files = [''part-catalog.json'' \<mapsto> VDict []]"

text \<open>A store whose only asset has no \<open>policy_id\<close>, and a request for that asset.\<close>

definition unbound_asset_store :: store where
  "unbound_asset_store =
     (initialize_store fixed_clock)
       \<lparr>assets := [\<lparr>a_id = ''legacy-asset'', a_name = ''Legacy data'',
                    a_policy_id = None, a_data_file = None\<rparr>]\<rparr>"

definition unbound_asset_request :: negotiation_request where
  "unbound_asset_request =
     \<lparr>rq_consumer_id = ''consumer-tierone'', rq_asset_id = ''legacy-asset'',
      rq_consumer_attributes = None, rq_callback_address = None\<rparr>"

text \<open>A negotiation for that asset, as \<open>initiate_negotiation\<close> files it, in a given
  state, and a store that holds it.\<close>

definition unbound_asset_negotiation :: "negotiation_state \<Rightarrow> negotiation" where
  "unbound_asset_negotiation st =
     \<lparr>n_id = ''negotiation-0a1b2c3d'',
      n_state = st,
      n_provider_id = ''provider-automotors-oem'',
      n_consumer_id = ''consumer-tierone'',
      n_asset_id = ''legacy-asset'',
      n_policy_id = Some ''open-access'',
      n_consumer_attributes = Some [],
      n_callback_address = None,
      n_created_at = fixed_clock 0,
      n_updated_at = fixed_clock 0,
      n_state_history =
        [\<lparr>h_state = REQUESTED, h_timestamp = fixed_clock 0, h_actor = ''consumer-tierone'',
          h_policy_evaluation = None, h_reason = None, h_agreement_id = None\<rparr>],
      n_policy_evaluation = None,
      n_agreement_id = None\<rparr>"

definition unbound_asset_negotiation_store :: "negotiation_state \<Rightarrow> store" where
  "unbound_asset_negotiation_store st =
     unbound_asset_store
       \<lparr>negotiations := [''negotiation-0a1b2c3d'' \<mapsto> unbound_asset_negotiation st]\<rparr>"

text \<open>A request by a tier-1 supplier for the first sample asset.\<close>

definition part_catalog_request :: negotiation_request where
  "part_catalog_request =
     \<lparr>rq_consumer_id = ''consumer-tierone'', rq_asset_id = ''part-catalog-2024'',
      rq_consumer_attributes = Some [(''partner_type'', VStr ''tier1_supplier'')],
      rq_callback_address = None\<rparr>"

text \<open>The store after that request has been made, offered, agreed and verified, from
  start-up.\<close>

definition verified_store :: store where
  "verified_store =
     snd (verify_agreement ''negotiation-0a1b2c3d'' fixed_clock
       (snd (consumer_agree ''negotiation-0a1b2c3d'' fixed_clock
         (snd (provider_offer ''negotiation-0a1b2c3d'' None fixed_clock
           (snd (initiate_negotiation part_catalog_request ''0a1b2c3d4e5f'' fixed_clock
             (initialize_store fixed_clock))))))))"

section \<open>Properties of the policy evaluator\<close>

lemmas evaluator_defs =
  evaluate_def evaluate_single_constraint_def check_raises_def is_satisfied_def
  proh_blocks_def perm_grants_def proh_raises_def perm_raises_def evaluation_raises_def
  request_action_def constraint_record_def constraint_text_def context_value_def
  checked_constraints_def prohibited_reason_def upper_def upper_char_def lower_def
  lower_char_def py_in_def py_sets_intersect_def

lemmas ascii_defs = ascii_def ascii_constraint_def ascii_policy_def ascii_context_def

lemma evaluate_single_constraint_cases:
  "\<not> check_raises c ctx \<Longrightarrow> evaluate_single_constraint c ctx = Inr (is_satisfied c ctx)"
  by (cases "evaluate_single_constraint c ctx") (auto simp: check_raises_def is_satisfied_def)

lemma is_satisfied_not_raises: "is_satisfied c ctx \<Longrightarrow> \<not> check_raises c ctx"
  by (simp add: is_satisfied_def check_raises_def)

lemma all_satisfied_none_raises:
  "list_all (\<lambda>c. is_satisfied c ctx) cs \<Longrightarrow> \<not> list_ex (\<lambda>c. check_raises c ctx) cs"
  by (induction cs) (simp_all add: is_satisfied_not_raises)

lemma evaluate_constraints_records:
  "\<not> list_ex (\<lambda>c. check_raises c ctx) cs
   \<Longrightarrow> evaluate_constraints cs ctx = Inr (map (constraint_record ctx) cs)"
  by (induction cs) (simp_all add: evaluate_single_constraint_cases constraint_record_def)

lemma evaluate_constraints_raises:
  "list_ex (\<lambda>c. check_raises c ctx) cs \<Longrightarrow> isl (evaluate_constraints cs ctx)"
  by (induction cs) (auto simp add: check_raises_def split: sum.splits)

lemma checked_of_all:
  "\<not> list_ex (\<lambda>c. check_raises c ctx) cs \<Longrightarrow> checked_of cs ctx = cs"
  by (induction cs) simp_all

lemma all_satisfied_records:
  "list_all e_satisfied (map (constraint_record ctx) cs) = list_all (\<lambda>c. is_satisfied c ctx) cs"
  by (induction cs) (simp_all add: constraint_record_def)

lemma find_None_iff_list_ex: "(find P xs = None) = (\<not> list_ex P xs)"
  by (induction xs) simp_all

text \<open>The loop over the prohibitions: it raises when a prohibition raises before one
  blocks, and otherwise the first prohibition that blocks decides.\<close>

lemma evaluate_prohibitions_raises:
  "list_ex (proh_raises ctx) (takeWhile (\<lambda>q. \<not> proh_blocks ctx q) qs)
   \<Longrightarrow> isl (evaluate_prohibitions qs ctx acc)"
proof (induction qs arbitrary: acc)
  case Nil
  then show ?case by simp
next
  case (Cons q qs)
  show ?case
  proof (cases "action_matches (proh_action q) (request_action ctx)")
    case (Inl err)
    then show ?thesis by simp
  next
    case (Inr matches)
    show ?thesis
    proof (cases matches)
      case False
      with Inr Cons show ?thesis by (simp add: proh_blocks_def proh_raises_def)
    next
      case True
      show ?thesis
      proof (cases "list_ex (\<lambda>c. check_raises c ctx) (proh_constraints q)")
        case raises: True
        from evaluate_constraints_raises [OF raises] Inr True show ?thesis
          by (auto split: sum.splits)
      next
        case none: False
        from Cons Inr True none show ?thesis
          by (auto simp add: evaluate_constraints_records all_satisfied_records
              proh_blocks_def proh_raises_def)
      qed
    qed
  qed
qed

lemma evaluate_prohibitions_char:
  "\<not> list_ex (proh_raises ctx) (takeWhile (\<lambda>q. \<not> proh_blocks ctx q) qs)
   \<Longrightarrow> evaluate_prohibitions qs ctx acc =
     (case find (proh_blocks ctx) qs of
        Some q \<Rightarrow>
          Inr (Inl \<lparr>allowed = False, reason = prohibited_reason q,
                    evaluated_constraints = map (constraint_record ctx) (proh_constraints q)\<rparr>)
      | None \<Rightarrow> Inr (Inr (acc @ map (constraint_record ctx) (checked_prohibitions qs ctx))))"
proof (induction qs arbitrary: acc)
  case Nil
  then show ?case by simp
next
  case (Cons q qs)
  show ?case
  proof (cases "action_matches (proh_action q) (request_action ctx)")
    case (Inl err)
    with Cons.prems show ?thesis by (simp add: proh_blocks_def proh_raises_def)
  next
    case (Inr matches)
    show ?thesis
    proof (cases matches)
      case False
      with Inr Cons show ?thesis
        by (simp add: proh_blocks_def proh_raises_def cong: option.case_cong)
    next
      case True
      show ?thesis
      proof (cases "list_all (\<lambda>c. is_satisfied c ctx) (proh_constraints q)")
        case sat: True
        from all_satisfied_none_raises [OF sat] sat Inr True show ?thesis
          by (simp add: evaluate_constraints_records all_satisfied_records proh_blocks_def
              prohibited_reason_def)
      next
        case unsat: False
        then have nb: "\<not> proh_blocks ctx q" by (simp add: proh_blocks_def)
        from Cons.prems nb have nr: "\<not> proh_raises ctx q"
          and rest: "\<not> list_ex (proh_raises ctx) (takeWhile (\<lambda>q. \<not> proh_blocks ctx q) qs)"
          by simp_all
        from nr Inr True have none: "\<not> list_ex (\<lambda>c. check_raises c ctx) (proh_constraints q)"
          by (simp add: proh_raises_def)
        from Cons.IH [OF rest] none unsat Inr True show ?thesis
          by (simp add: evaluate_constraints_records all_satisfied_records checked_of_all
              proh_blocks_def cong: option.case_cong)
      qed
    qed
  qed
qed

text \<open>The loop over the permissions, in the same way.\<close>

lemma evaluate_permissions_raises:
  "list_ex (perm_raises ctx) (takeWhile (\<lambda>p. \<not> perm_grants ctx p) ps)
   \<Longrightarrow> isl (evaluate_permissions ps ctx acc)"
proof (induction ps arbitrary: acc)
  case Nil
  then show ?case by simp
next
  case (Cons p ps)
  show ?case
  proof (cases "action_matches (perm_action p) (request_action ctx)")
    case (Inl err)
    then show ?thesis by simp
  next
    case (Inr matches)
    show ?thesis
    proof (cases matches)
      case False
      with Inr Cons show ?thesis by (simp add: perm_grants_def perm_raises_def)
    next
      case True
      show ?thesis
      proof (cases "list_ex (\<lambda>c. check_raises c ctx) (perm_constraints p)")
        case raises: True
        then have "perm_constraints p \<noteq> []" by auto
        with evaluate_constraints_raises [OF raises] Inr True show ?thesis
          by (auto split: sum.splits)
      next
        case none: False
        from Cons Inr True none show ?thesis
          by (auto simp add: evaluate_constraints_records all_satisfied_records
              perm_grants_def perm_raises_def)
      qed
    qed
  qed
qed

lemma evaluate_permissions_char:
  "\<not> list_ex (perm_raises ctx) (takeWhile (\<lambda>p. \<not> perm_grants ctx p) ps)
   \<Longrightarrow> evaluate_permissions ps ctx acc =
     Inr (case find (perm_grants ctx) ps of
        Some p \<Rightarrow>
          \<lparr>allowed = True,
           reason = (if perm_constraints p = [] then ''Permission granted (no constraints)''
                     else ''All permission constraints satisfied''),
           evaluated_constraints =
             acc @ map (constraint_record ctx) (checked_permissions ps ctx)\<rparr>
      | None \<Rightarrow>
          \<lparr>allowed = False, reason = ''No matching permission found'',
           evaluated_constraints =
             acc @ map (constraint_record ctx) (checked_permissions ps ctx)\<rparr>)"
proof (induction ps arbitrary: acc)
  case Nil
  then show ?case by simp
next
  case (Cons p ps)
  show ?case
  proof (cases "action_matches (perm_action p) (request_action ctx)")
    case (Inl err)
    with Cons.prems show ?thesis by (simp add: perm_grants_def perm_raises_def)
  next
    case (Inr matches)
    show ?thesis
    proof (cases matches)
      case False
      with Inr Cons show ?thesis
        by (simp add: perm_grants_def perm_raises_def cong: option.case_cong)
    next
      case True
      show ?thesis
      proof (cases "list_all (\<lambda>c. is_satisfied c ctx) (perm_constraints p)")
        case sat: True
        from all_satisfied_none_raises [OF sat] sat Inr True show ?thesis
          by (simp add: evaluate_constraints_records all_satisfied_records checked_of_all
              perm_grants_def)
      next
        case unsat: False
        then have ne: "perm_constraints p \<noteq> []" by auto
        from unsat have ng: "\<not> perm_grants ctx p" by (simp add: perm_grants_def)
        from Cons.prems ng have nr: "\<not> perm_raises ctx p"
          and rest: "\<not> list_ex (perm_raises ctx) (takeWhile (\<lambda>p. \<not> perm_grants ctx p) ps)"
          by simp_all
        from nr Inr True have none: "\<not> list_ex (\<lambda>c. check_raises c ctx) (perm_constraints p)"
          by (simp add: perm_raises_def)
        from Cons.IH [OF rest] none unsat ne Inr True show ?thesis
          by (simp add: evaluate_constraints_records all_satisfied_records checked_of_all
              perm_grants_def cong: option.case_cong)
      qed
    qed
  qed
qed

text \<open>\<open>evaluate\<close> raises exactly when a step of the evaluation raises.\<close>

lemma evaluate_raises_iff: "isl (evaluate pol ctx) = evaluation_raises pol ctx"
proof (cases "list_ex (proh_raises ctx)
                (takeWhile (\<lambda>q. \<not> proh_blocks ctx q) (prohibitions pol))")
  case True
  from evaluate_prohibitions_raises [OF True, of "[]"] True show ?thesis
    by (auto simp add: evaluate_def evaluation_raises_def split: sum.splits)
next
  case noq: False
  show ?thesis
  proof (cases "find (proh_blocks ctx) (prohibitions pol)")
    case (Some q)
    then have "list_ex (proh_blocks ctx) (prohibitions pol)"
      using find_None_iff_list_ex [of "proh_blocks ctx" "prohibitions pol"] by simp
    with noq Some show ?thesis
      by (simp add: evaluate_def evaluation_raises_def evaluate_prohibitions_char)
  next
    case None
    then have nb: "\<not> list_ex (proh_blocks ctx) (prohibitions pol)"
      by (simp add: find_None_iff_list_ex)
    show ?thesis
    proof (cases "list_ex (perm_raises ctx)
                    (takeWhile (\<lambda>p. \<not> perm_grants ctx p) (permissions pol))")
      case True
      with noq None nb evaluate_permissions_raises [OF True] show ?thesis
        by (simp add: evaluate_def evaluation_raises_def evaluate_prohibitions_char)
    next
      case False
      with noq None nb show ?thesis
        by (simp add: evaluate_def evaluation_raises_def evaluate_prohibitions_char
            evaluate_permissions_char)
    qed
  qed
qed

text \<open>
  Deny overrides allow, as long as nothing raises: for a policy and a context in ASCII,
  the first prohibition that blocks the request decides, whatever the permissions are,
  and the trace returned holds the records of its constraints alone.
\<close>

lemma evaluate_deny_overrides:
  assumes "ascii_policy pol" and "ascii_context ctx"
    and "\<not> evaluation_raises pol ctx" and "list_ex (proh_blocks ctx) (prohibitions pol)"
  shows "\<exists>q. find (proh_blocks ctx) (prohibitions pol) = Some q \<and>
             evaluate pol ctx =
               Inr \<lparr>allowed = False, reason = prohibited_reason q,
                    evaluated_constraints = map (constraint_record ctx) (proh_constraints q)\<rparr>"
proof -
  from assms(3)
  have q: "\<not> list_ex (proh_raises ctx)
               (takeWhile (\<lambda>q. \<not> proh_blocks ctx q) (prohibitions pol))"
    by (simp add: evaluation_raises_def)
  from assms(4) obtain q0 where f: "find (proh_blocks ctx) (prohibitions pol) = Some q0"
    by (cases "find (proh_blocks ctx) (prohibitions pol)") (auto simp: find_None_iff_list_ex)
  show ?thesis
    by (simp add: evaluate_def evaluate_prohibitions_char [OF q] f)
qed

text \<open>
  When nothing raises and no prohibition blocks, the trace returned holds the records
  of all the constraints checked, in the order of the checks: the return of a grant and
  the return of the default denial both pass the accumulated list.
\<close>

lemma evaluate_trace_unblocked:
  assumes "ascii_policy pol" and "ascii_context ctx"
    and "\<not> evaluation_raises pol ctx" and "\<not> list_ex (proh_blocks ctx) (prohibitions pol)"
  shows "\<exists>res. evaluate pol ctx = Inr res \<and>
           evaluated_constraints res =
             map (constraint_record ctx) (checked_constraints pol ctx)"
proof -
  from assms(3,4)
  have q: "\<not> list_ex (proh_raises ctx)
               (takeWhile (\<lambda>q. \<not> proh_blocks ctx q) (prohibitions pol))"
    and p: "\<not> list_ex (perm_raises ctx)
               (takeWhile (\<lambda>p. \<not> perm_grants ctx p) (permissions pol))"
    by (simp_all add: evaluation_raises_def)
  from assms(4) have f: "find (proh_blocks ctx) (prohibitions pol) = None"
    by (simp add: find_None_iff_list_ex)
  show ?thesis
    by (simp add: evaluate_def checked_constraints_def evaluate_prohibitions_char [OF q] f
        evaluate_permissions_char [OF p] split: option.splits)
qed

text \<open>
  Claim C3. A constraint with operator \<open>gt\<close>, \<open>lt\<close>, \<open>gte\<close> or \<open>lte\<close> is said to come
  out false, with no error, when the context value and the right operand have types
  that do not compare. The code compares them with Python's operators and has no guard:
  for the constraint \<open>age gt 18\<close> and the context \<open>{"age": "twenty"}\<close> the check raises
  \<open>TypeError\<close>, under each of the four operators.
\<close>

theorem ordered_comparison_type_mismatch_raises:
  "evaluate_single_constraint age_over_18 [(''age'', VStr ''twenty'')] = Inl TypeError
   \<and> evaluate_single_constraint (age_over_18\<lparr>operator := ''lt''\<rparr>)
        [(''age'', VStr ''twenty'')] = Inl TypeError
   \<and> evaluate_single_constraint (age_over_18\<lparr>operator := ''gte''\<rparr>)
        [(''age'', VStr ''twenty'')] = Inl TypeError
   \<and> evaluate_single_constraint (age_over_18\<lparr>operator := ''lte''\<rparr>)
        [(''age'', VStr ''twenty'')] = Inl TypeError"
  by (simp add: age_over_18_def evaluate_single_constraint_def lower_def lower_char_def)

text \<open>
  Claim C1. A prohibition whose action matches the request and whose constraints are
  all satisfied is said to make \<open>evaluate\<close> return \<open>allowed=false\<close>. In
  \<open>age_gated_policy\<close> the second prohibition of \<open>USE\<close> has no constraint, so it blocks
  every request for \<open>USE\<close>; but the first one is checked before it, and with the context
  \<open>{"age": "twenty"}\<close> its constraint \<open>age gt 18\<close> raises \<open>TypeError\<close>, which leaves
  \<open>evaluate\<close> without a result.
\<close>

theorem deny_overrides_lost_on_type_error:
  "proh_blocks [(''age'', VStr ''twenty'')] \<lparr>proh_action = ''USE'', proh_constraints = []\<rparr>
   \<and> \<lparr>proh_action = ''USE'', proh_constraints = []\<rparr> \<in> set (prohibitions age_gated_policy)
   \<and> evaluate age_gated_policy [(''age'', VStr ''twenty'')] = Inl TypeError"
  by (simp add: age_gated_policy_def age_over_18_def evaluator_defs)

text \<open>
  Claim C4, as stated: when no prohibition blocks and no permission grants, the reason
  returned is \<open>no matching permission found\<close>. The empty policy and the empty context
  show that the reason of the code is \<open>No matching permission found\<close>, with a capital.
\<close>

theorem no_matching_permission_reason_counterexample:
  "evaluate empty_policy [] =
     Inr \<lparr>allowed = False, reason = ''No matching permission found'',
          evaluated_constraints = []\<rparr>
   \<and> evaluate empty_policy [] \<noteq>
     Inr \<lparr>allowed = False, reason = ''no matching permission found'',
          evaluated_constraints = []\<rparr>"
  by (simp add: empty_policy_def evaluate_def)

text \<open>
  Claim C4, amended. Take a policy and a context in ASCII, such that no prohibition
  blocks the request. Then \<open>evaluate\<close> returns unless a step of the evaluation raises, and
  whenever it returns, the first permission in declared order whose action matches and
  whose constraints are all satisfied has decided: with an empty constraint list it
  grants with the reason \<open>Permission granted (no constraints)\<close>, otherwise with the
  reason \<open>All permission constraints satisfied\<close>; when there is no such permission the
  result is \<open>allowed=false\<close> with the reason \<open>No matching permission found\<close>. The steps
  of the evaluation are the checks of the prohibitions and of the permissions up to the
  first that grants: a permission after it is not looked at, and what it would raise
  does not count.
\<close>

theorem evaluate_permission_scan:
  assumes "ascii_policy pol" and "ascii_context ctx"
    and "\<not> list_ex (proh_blocks ctx) (prohibitions pol)"
  shows "(\<not> evaluation_raises pol ctx \<longrightarrow> (\<exists>res. evaluate pol ctx = Inr res))
       \<and> (\<forall>res. evaluate pol ctx = Inr res \<longrightarrow>
            (case find (perm_grants ctx) (permissions pol) of
               Some p \<Rightarrow> allowed res \<and>
                 reason res = (if perm_constraints p = []
                               then ''Permission granted (no constraints)''
                               else ''All permission constraints satisfied'')
             | None \<Rightarrow> \<not> allowed res \<and> reason res = ''No matching permission found''))"
proof (intro conjI allI impI)
  assume "\<not> evaluation_raises pol ctx"
  then have "\<not> isl (evaluate pol ctx)" by (simp add: evaluate_raises_iff)
  then show "\<exists>res. evaluate pol ctx = Inr res" by (cases "evaluate pol ctx") simp_all
next
  fix res assume res: "evaluate pol ctx = Inr res"
  then have "\<not> isl (evaluate pol ctx)" by simp
  then have "\<not> evaluation_raises pol ctx" by (simp add: evaluate_raises_iff)
  with assms(3)
  have q: "\<not> list_ex (proh_raises ctx)
               (takeWhile (\<lambda>q. \<not> proh_blocks ctx q) (prohibitions pol))"
    and p: "\<not> list_ex (perm_raises ctx)
               (takeWhile (\<lambda>p. \<not> perm_grants ctx p) (permissions pol))"
    by (simp_all add: evaluation_raises_def)
  from assms(3) have f: "find (proh_blocks ctx) (prohibitions pol) = None"
    by (simp add: find_None_iff_list_ex)
  from res show "case find (perm_grants ctx) (permissions pol) of
               Some p \<Rightarrow> allowed res \<and>
                 reason res = (if perm_constraints p = []
                               then ''Permission granted (no constraints)''
                               else ''All permission constraints satisfied'')
             | None \<Rightarrow> \<not> allowed res \<and> reason res = ''No matching permission found''"
    by (auto simp add: evaluate_def evaluate_prohibitions_char [OF q] f
        evaluate_permissions_char [OF p] split: option.splits)
qed

text \<open>
  Claim C4, witness. Under \<open>open_then_age_gated_policy\<close> and the context
  \<open>{"age": "twenty"}\<close> the first permission grants at once; the constraint of the second,
  which would raise, is not checked. Under \<open>QUALITY_DATA_POLICY\<close> and the context of
  the spec's scenario B no permission grants, and the request is denied for want of a
  permission.
\<close>

theorem evaluate_permission_scan_witness:
  "ascii_policy open_then_age_gated_policy
   \<and> ascii_context [(''age'', VStr ''twenty'')]
   \<and> \<not> list_ex (proh_blocks [(''age'', VStr ''twenty'')])
           (prohibitions open_then_age_gated_policy)
   \<and> \<not> evaluation_raises open_then_age_gated_policy [(''age'', VStr ''twenty'')]
   \<and> check_raises age_over_18 [(''age'', VStr ''twenty'')]
   \<and> (\<exists>res. evaluate open_then_age_gated_policy [(''age'', VStr ''twenty'')] = Inr res
            \<and> allowed res \<and> reason res = ''Permission granted (no constraints)'')
   \<and> ascii_policy QUALITY_DATA_POLICY
   \<and> ascii_context cost_reduction_context
   \<and> \<not> list_ex (proh_blocks cost_reduction_context) (prohibitions QUALITY_DATA_POLICY)
   \<and> \<not> evaluation_raises QUALITY_DATA_POLICY cost_reduction_context
   \<and> (\<exists>res. evaluate QUALITY_DATA_POLICY cost_reduction_context = Inr res
            \<and> \<not> allowed res \<and> reason res = ''No matching permission found'')"
proof -
  let ?ctx = "[(''age'', VStr ''twenty'')]"
  have a1: "ascii_policy open_then_age_gated_policy"
    by (simp add: open_then_age_gated_policy_def age_over_18_def ascii_defs)
  have a2: "ascii_context ?ctx"
    by (simp add: ascii_defs)
  have a3: "\<not> list_ex (proh_blocks ?ctx) (prohibitions open_then_age_gated_policy)"
    by (simp add: open_then_age_gated_policy_def)
  have a4: "\<not> evaluation_raises open_then_age_gated_policy ?ctx"
    by (simp add: open_then_age_gated_policy_def age_over_18_def evaluator_defs)
  have a5: "check_raises age_over_18 ?ctx"
    by (simp add: age_over_18_def evaluator_defs)
  have a6: "find (perm_grants ?ctx) (permissions open_then_age_gated_policy) =
              Some \<lparr>perm_action = ''USE'', perm_constraints = []\<rparr>"
    by (simp add: open_then_age_gated_policy_def evaluator_defs)
  have b1: "ascii_policy QUALITY_DATA_POLICY"
    by (simp add: QUALITY_DATA_POLICY_def ascii_defs)
  have b2: "ascii_context cost_reduction_context"
    by (simp add: cost_reduction_context_def ascii_defs)
  have b3: "\<not> list_ex (proh_blocks cost_reduction_context) (prohibitions QUALITY_DATA_POLICY)"
    by (simp add: QUALITY_DATA_POLICY_def cost_reduction_context_def evaluator_defs)
  have b4: "\<not> evaluation_raises QUALITY_DATA_POLICY cost_reduction_context"
    by (simp add: QUALITY_DATA_POLICY_def cost_reduction_context_def evaluator_defs)
  have b6: "find (perm_grants cost_reduction_context) (permissions QUALITY_DATA_POLICY) = None"
    by (simp add: QUALITY_DATA_POLICY_def cost_reduction_context_def evaluator_defs)
  show ?thesis
    using a1 a2 a3 a4 a5 b1 b2 b3 b4
      evaluate_permission_scan [OF a1 a2 a3]
      evaluate_permission_scan [OF b1 b2 b3]
    by (auto simp add: a6 b6)
qed

text \<open>
  Claim C7. The trace returned is said to hold the record of every constraint checked
  during the evaluation. Under \<open>region_gated_policy\<close> and the context
  \<open>{"region": "US"}\<close> the constraint \<open>region eq EU\<close> of the first prohibition is checked
  and found unsatisfied; the second prohibition then blocks, and the trace returned is
  empty: the return of a block passes the records of the blocking prohibition alone,
  not the list accumulated so far.
\<close>

theorem blocked_request_trace_omits_checked_constraint:
  "evaluate region_gated_policy [(''region'', VStr ''US'')] =
     Inr \<lparr>allowed = False, reason = ''Action 'USE' is prohibited'',
          evaluated_constraints = []\<rparr>
   \<and> checked_constraints region_gated_policy [(''region'', VStr ''US'')] = [region_is_eu]
   \<and> constraint_record [(''region'', VStr ''US'')] region_is_eu =
       \<lparr>e_constraint = ''region eq EU'', e_context_value = VStr ''US'', e_satisfied = False\<rparr>"
  by (simp add: region_gated_policy_def region_is_eu_def evaluator_defs)

text \<open>
  On determinism and purity. Here \<open>evaluate\<close> is a function of the policy and the
  context, and of a function both hold whatever it computes: it returns equal results on
  equal arguments, and it has nothing to write to. Whether the method writes to the
  objects that it is handed, or reads anything besides them, is a matter of the objects
  in memory, which this embedding leaves out; no theorem here states it.
\<close>

section \<open>Properties of the provider\<close>

lemma log_event_fields [simp]:
  "negotiations (log_event e d t s) = negotiations s"
  "agreements (log_event e d t s) = agreements s"
  "transfers (log_event e d t s) = transfers s"
  "assets (log_event e d t s) = assets s"
  by (simp_all add: log_event_def)

lemma guarded_update_refl [simp]: "guarded_update s nid s"
  by (simp add: guarded_update_def)

lemma provider_offer_store: "guarded_update s nid (snd (provider_offer nid action clk s))"
proof (cases "negotiations s nid")
  case None
  then show ?thesis by (simp add: provider_offer_def get_negotiation_def)
next
  case (Some n)
  show ?thesis
  proof (cases "n_state n = REQUESTED")
    case False
    with Some show ?thesis by (simp add: provider_offer_def get_negotiation_def)
  next
    case True
    let ?attrs = "case action of Some a \<Rightarrow> na_consumer_attributes a
                    | None \<Rightarrow> (case n_consumer_attributes n of None \<Rightarrow> Some [] | Some attrs \<Rightarrow> Some attrs)"
    show ?thesis
    proof (cases "evaluate_call (negotiation_policy n) ?attrs")
      case (Inl err)
      with Some True show ?thesis by (simp add: provider_offer_def get_negotiation_def)
    next
      case (Inr res)
      with Some True show ?thesis
        by (cases "allowed res")
           (simp_all add: provider_offer_def get_negotiation_def Let_def save_negotiation_def
              guarded_update_def)
    qed
  qed
qed


lemma consumer_agree_store: "guarded_update s nid (snd (consumer_agree nid clk s))"
proof (cases "negotiations s nid")
  case None
  then show ?thesis by (simp add: consumer_agree_def get_negotiation_def)
next
  case (Some n)
  then show ?thesis
    by (cases "n_state n = OFFERED")
       (simp_all add: consumer_agree_def get_negotiation_def Let_def save_negotiation_def
          guarded_update_def)
qed

lemma verify_agreement_store: "guarded_update s nid (snd (verify_agreement nid clk s))"
proof (cases "negotiations s nid")
  case None
  then show ?thesis by (simp add: verify_agreement_def get_negotiation_def)
next
  case (Some n)
  then show ?thesis
    by (cases "n_state n = AGREED")
       (simp_all add: verify_agreement_def get_negotiation_def Let_def save_negotiation_def
          guarded_update_def)
qed

lemma terminate_negotiation_store: "guarded_update s nid (snd (terminate_negotiation nid clk s))"
proof (cases "negotiations s nid")
  case None
  then show ?thesis by (simp add: terminate_negotiation_def get_negotiation_def)
next
  case (Some n)
  then show ?thesis
    by (cases "n_state n = FINALIZED \<or> n_state n = TERMINATED")
       (simp_all add: terminate_negotiation_def get_negotiation_def Let_def save_negotiation_def
          guarded_update_def)
qed

text \<open>
  Claim C2. Once a negotiation is \<open>FINALIZED\<close> or \<open>TERMINATED\<close>, each of offer,
  agree, verify, finalize and terminate raises the \<open>INVALID_STATE\<close> error (status 400)
  and returns the store as it was, so that the state and the \<open>state_history\<close> of the
  negotiation are unchanged.
\<close>

theorem terminal_negotiation_rejects_transitions:
  assumes "get_negotiation s nid = Some n"
    and "n_state n = FINALIZED \<or> n_state n = TERMINATED"
  shows "(\<exists>msg. provider_offer nid action clk s = (Inl (HTTPException 400 ''INVALID_STATE'' (Some msg)), s))
       \<and> (\<exists>msg. consumer_agree nid clk s = (Inl (HTTPException 400 ''INVALID_STATE'' (Some msg)), s))
       \<and> (\<exists>msg. verify_agreement nid clk s = (Inl (HTTPException 400 ''INVALID_STATE'' (Some msg)), s))
       \<and> (\<exists>msg. finalize_agreement nid uuid_hex clk s = (Inl (HTTPException 400 ''INVALID_STATE'' (Some msg)), s))
       \<and> (\<exists>msg. terminate_negotiation nid clk s = (Inl (HTTPException 400 ''INVALID_STATE'' (Some msg)), s))"
  using assms
  by (auto simp: provider_offer_def consumer_agree_def verify_agreement_def
      finalize_agreement_def terminate_negotiation_def)

text \<open>Claim C2, witness: a terminated negotiation, and each of the five transitions on
  it.\<close>

theorem terminal_negotiation_rejects_transitions_witness:
  "get_negotiation (negotiation_store TERMINATED) ''negotiation-0a1b2c3d'' =
     Some (example_negotiation TERMINATED)
   \<and> n_state (example_negotiation TERMINATED) = TERMINATED
   \<and> (\<exists>msg. provider_offer ''negotiation-0a1b2c3d'' None fixed_clock
              (negotiation_store TERMINATED) =
              (Inl (HTTPException 400 ''INVALID_STATE'' (Some msg)), negotiation_store TERMINATED))
   \<and> (\<exists>msg. consumer_agree ''negotiation-0a1b2c3d'' fixed_clock (negotiation_store TERMINATED) =
              (Inl (HTTPException 400 ''INVALID_STATE'' (Some msg)), negotiation_store TERMINATED))
   \<and> (\<exists>msg. verify_agreement ''negotiation-0a1b2c3d'' fixed_clock
              (negotiation_store TERMINATED) =
              (Inl (HTTPException 400 ''INVALID_STATE'' (Some msg)), negotiation_store TERMINATED))
   \<and> (\<exists>msg. finalize_agreement ''negotiation-0a1b2c3d'' ''4e5f6a7b8c9d'' fixed_clock
              (negotiation_store TERMINATED) =
              (Inl (HTTPException 400 ''INVALID_STATE'' (Some msg)), negotiation_store TERMINATED))
   \<and> (\<exists>msg. terminate_negotiation ''negotiation-0a1b2c3d'' fixed_clock
              (negotiation_store TERMINATED) =
              (Inl (HTTPException 400 ''INVALID_STATE'' (Some msg)), negotiation_store TERMINATED))"
proof -
  have h1: "get_negotiation (negotiation_store TERMINATED) ''negotiation-0a1b2c3d'' =
     Some (example_negotiation TERMINATED)"
    by (simp add: get_negotiation_def negotiation_store_def)
  have h2: "n_state (example_negotiation TERMINATED) = FINALIZED
            \<or> n_state (example_negotiation TERMINATED) = TERMINATED"
    by (simp add: example_negotiation_def)
  show ?thesis
    using h1
      terminal_negotiation_rejects_transitions
        [OF h1 h2, of None fixed_clock "''4e5f6a7b8c9d''"]
    by (simp add: example_negotiation_def)
qed

text \<open>
  Claim C6, as stated: a started transfer whose asset data can be resolved is completed.
  When the file of the asset holds the empty object, \<open>get_asset_data\<close> resolves the data
  to \<open>{}\<close>, which is not \<open>None\<close>; \<open>complete_transfer\<close> tests the data with \<open>not data\<close>,
  takes the empty object as no data, raises \<open>DATA_NOT_AVAILABLE\<close> and leaves the transfer
  started.
\<close>

theorem complete_transfer_empty_data_counterexample:
  "get_transfer (transfer_store T_STARTED) ''transfer-8c9d0e1f'' = Some (example_transfer T_STARTED)
   \<and> t_state (example_transfer T_STARTED) = T_STARTED
   \<and> get_asset_data empty_catalog_files (transfer_store T_STARTED)
         (t_asset_id (example_transfer T_STARTED)) = Some (VDict [])
   \<and> complete_transfer empty_catalog_files ''transfer-8c9d0e1f'' fixed_clock
         (transfer_store T_STARTED) =
       (Inl (HTTPException 500 ''DATA_NOT_AVAILABLE'' (Some ''Could not load asset data'')),
        transfer_store T_STARTED)"
  by (simp add: complete_transfer_def get_transfer_def get_asset_data_def get_asset_by_id_def
      transfer_store_def example_transfer_def initialize_store_def sample_assets_def
      empty_catalog_files_def)

text \<open>
  Claim C6, amended. For a transfer in state \<open>STARTED\<close>, \<open>complete_transfer\<close> either
  finds data for the asset, and then files the transfer as \<open>COMPLETED\<close> with that data,
  which is not \<open>None\<close>, and with \<open>completed_at\<close> set, or finds none, and then raises
  \<open>DATA_NOT_AVAILABLE\<close> and returns the store as it was. For a transfer in any other state
  it raises \<open>INVALID_STATE\<close> and returns the store as it was. Data is found when
  \<open>get_asset_data\<close> returns a value that Python takes as true: \<open>None\<close> and the empty
  values (an empty object, list or string, zero, \<open>false\<close>) count as no data.
\<close>

theorem complete_transfer_outcomes:
  assumes "get_transfer s tid = Some tr"
  shows "(t_state tr = T_STARTED \<and> get_asset_data files s (t_asset_id tr) = Some d \<and> py_truthy d
          \<longrightarrow> (\<exists>resp s' tr'. complete_transfer files tid clk s = (Inr resp, s')
                 \<and> get_transfer s' tid = Some tr'
                 \<and> t_state tr' = T_COMPLETED \<and> t_data tr' = Some d \<and> d \<noteq> VNone
                 \<and> t_completed_at tr' = Some (clk 0)))
       \<and> (t_state tr = T_STARTED
           \<and> (case get_asset_data files s (t_asset_id tr) of None \<Rightarrow> True | Some d \<Rightarrow> \<not> py_truthy d)
          \<longrightarrow> complete_transfer files tid clk s =
                (Inl (HTTPException 500 ''DATA_NOT_AVAILABLE'' (Some ''Could not load asset data'')), s))
       \<and> (t_state tr \<noteq> T_STARTED
          \<longrightarrow> (\<exists>msg. complete_transfer files tid clk s =
                (Inl (HTTPException 400 ''INVALID_STATE'' (Some msg)), s)))"
  using assms
  by (auto simp: complete_transfer_def Let_def save_transfer_def log_event_def get_transfer_def
      split: option.splits)

text \<open>
  Claim C6, witness: a started transfer of the part catalog, completed when the data file
  is there and refused when the directory is empty; and a transfer that is only
  requested.
\<close>

theorem complete_transfer_outcomes_witness:
  "get_transfer (transfer_store T_STARTED) ''transfer-8c9d0e1f'' = Some (example_transfer T_STARTED)
   \<and> get_asset_data sample_files (transfer_store T_STARTED) ''part-catalog-2024'' =
       Some part_catalog
   \<and> py_truthy part_catalog
   \<and> (\<exists>resp s' tr'.
          complete_transfer sample_files ''transfer-8c9d0e1f'' fixed_clock (transfer_store T_STARTED) =
            (Inr resp, s')
          \<and> get_transfer s' ''transfer-8c9d0e1f'' = Some tr'
          \<and> t_state tr' = T_COMPLETED \<and> t_data tr' = Some part_catalog
          \<and> t_completed_at tr' = Some (fixed_clock 0))
   \<and> get_asset_data Map.empty (transfer_store T_STARTED) ''part-catalog-2024'' = None
   \<and> complete_transfer Map.empty ''transfer-8c9d0e1f'' fixed_clock (transfer_store T_STARTED) =
       (Inl (HTTPException 500 ''DATA_NOT_AVAILABLE'' (Some ''Could not load asset data'')),
        transfer_store T_STARTED)
   \<and> get_transfer (transfer_store T_REQUESTED) ''transfer-8c9d0e1f'' =
       Some (example_transfer T_REQUESTED)
   \<and> (\<exists>msg.
          complete_transfer sample_files ''transfer-8c9d0e1f'' fixed_clock
            (transfer_store T_REQUESTED) =
            (Inl (HTTPException 400 ''INVALID_STATE'' (Some msg)), transfer_store T_REQUESTED))"
proof -
  have h1: "get_transfer (transfer_store T_STARTED) ''transfer-8c9d0e1f'' =
              Some (example_transfer T_STARTED)"
    by (simp add: get_transfer_def transfer_store_def)
  have h2: "get_asset_data sample_files (transfer_store T_STARTED) ''part-catalog-2024'' =
              Some part_catalog"
    by (simp add: get_asset_data_def get_asset_by_id_def transfer_store_def initialize_store_def
        sample_assets_def sample_files_def part_catalog_def)
  have h3: "py_truthy part_catalog"
    by (simp add: part_catalog_def)
  have h4: "get_asset_data Map.empty (transfer_store T_STARTED) ''part-catalog-2024'' = None"
    by (simp add: get_asset_data_def get_asset_by_id_def transfer_store_def initialize_store_def
        sample_assets_def)
  have h5: "get_transfer (transfer_store T_REQUESTED) ''transfer-8c9d0e1f'' =
              Some (example_transfer T_REQUESTED)"
    by (simp add: get_transfer_def transfer_store_def)
  have st: "t_state (example_transfer T_STARTED) = T_STARTED"
    "t_state (example_transfer T_REQUESTED) \<noteq> T_STARTED"
    "t_asset_id (example_transfer T_STARTED) = ''part-catalog-2024''"
    by (simp_all add: example_transfer_def)
  show ?thesis
    using h1 h2 h3 h4 h5
      complete_transfer_outcomes [OF h1, of sample_files part_catalog fixed_clock]
      complete_transfer_outcomes [OF h1, of Map.empty part_catalog fixed_clock]
      complete_transfer_outcomes [OF h5, of sample_files part_catalog fixed_clock]
    by (auto simp add: st)
qed

text \<open>
  Claim C8. \<open>initiate_transfer\<close> raises \<open>AGREEMENT_NOT_FOUND\<close> (status 404) when the store
  has no agreement under the given id and \<open>AGREEMENT_NOT_ACTIVE\<close> (status 400) when the
  agreement's status is not \<open>ACTIVE\<close>, in both cases returning the store as it was;
  otherwise it succeeds and files a transfer in state \<open>REQUESTED\<close> that carries the id of
  the agreement and its asset, provider and consumer ids.
\<close>

theorem initiate_transfer_outcomes:
  "(get_agreement s (tq_agreement_id request) = None
      \<longrightarrow> (\<exists>msg. initiate_transfer request uuid_hex clk s =
              (Inl (HTTPException 404 ''AGREEMENT_NOT_FOUND'' (Some msg)), s)))
   \<and> (\<forall>a. get_agreement s (tq_agreement_id request) = Some a \<and> ag_status a \<noteq> ''ACTIVE''
      \<longrightarrow> (\<exists>msg. initiate_transfer request uuid_hex clk s =
              (Inl (HTTPException 400 ''AGREEMENT_NOT_ACTIVE'' (Some msg)), s)))
   \<and> (\<forall>a. get_agreement s (tq_agreement_id request) = Some a \<and> ag_status a = ''ACTIVE''
      \<longrightarrow> (\<exists>resp s' tr. initiate_transfer request uuid_hex clk s = (Inr resp, s')
             \<and> get_transfer s' (''transfer-'' @ take 8 uuid_hex) = Some tr
             \<and> t_state tr = T_REQUESTED
             \<and> t_agreement_id tr = tq_agreement_id request
             \<and> t_asset_id tr = ag_asset_id a
             \<and> t_provider_id tr = ag_provider_id a
             \<and> t_consumer_id tr = ag_consumer_id a))"
  by (auto simp: initiate_transfer_def Let_def save_transfer_def log_event_def get_transfer_def)

text \<open>
  Claim C8, witness: a transfer asked for under an active agreement, under a suspended
  one, and under an id that the store does not know.
\<close>

theorem initiate_transfer_outcomes_witness:
  "get_agreement (agreement_store ''ACTIVE'') ''agreement-4e5f6a7b'' =
     Some (example_agreement ''ACTIVE'')
   \<and> (\<exists>resp s' tr.
          initiate_transfer
            \<lparr>tq_agreement_id = ''agreement-4e5f6a7b'', tq_data_destination = None,
             tq_format = Some ''HTTP_PUSH''\<rparr>
            ''8c9d0e1f2a3b'' fixed_clock (agreement_store ''ACTIVE'') = (Inr resp, s')
          \<and> get_transfer s' ''transfer-8c9d0e1f'' = Some tr
          \<and> t_state tr = T_REQUESTED
          \<and> t_asset_id tr = ''part-catalog-2024''
          \<and> t_provider_id tr = ''provider-automotors-oem''
          \<and> t_consumer_id tr = ''consumer-tierone'')
   \<and> get_agreement (agreement_store ''SUSPENDED'') ''agreement-4e5f6a7b'' =
     Some (example_agreement ''SUSPENDED'')
   \<and> (\<exists>msg.
          initiate_transfer
            \<lparr>tq_agreement_id = ''agreement-4e5f6a7b'', tq_data_destination = None,
             tq_format = Some ''HTTP_PUSH''\<rparr>
            ''8c9d0e1f2a3b'' fixed_clock (agreement_store ''SUSPENDED'') =
            (Inl (HTTPException 400 ''AGREEMENT_NOT_ACTIVE'' (Some msg)),
             agreement_store ''SUSPENDED''))
   \<and> get_agreement (agreement_store ''ACTIVE'') ''agreement-00000000'' = None
   \<and> (\<exists>msg.
          initiate_transfer
            \<lparr>tq_agreement_id = ''agreement-00000000'', tq_data_destination = None,
             tq_format = Some ''HTTP_PUSH''\<rparr>
            ''8c9d0e1f2a3b'' fixed_clock (agreement_store ''ACTIVE'') =
            (Inl (HTTPException 404 ''AGREEMENT_NOT_FOUND'' (Some msg)),
             agreement_store ''ACTIVE''))"
proof -
  have h1: "get_agreement (agreement_store ''ACTIVE'') ''agreement-4e5f6a7b'' =
              Some (example_agreement ''ACTIVE'')"
    by (simp add: get_agreement_def agreement_store_def)
  have h2: "get_agreement (agreement_store ''SUSPENDED'') ''agreement-4e5f6a7b'' =
              Some (example_agreement ''SUSPENDED'')"
    by (simp add: get_agreement_def agreement_store_def)
  have h3: "get_agreement (agreement_store ''ACTIVE'') ''agreement-00000000'' = None"
    by (simp add: get_agreement_def agreement_store_def)
  have ag: "ag_status (example_agreement ''ACTIVE'') = ''ACTIVE''"
    "ag_status (example_agreement ''SUSPENDED'') \<noteq> ''ACTIVE''"
    "ag_asset_id (example_agreement ''ACTIVE'') = ''part-catalog-2024''"
    "ag_provider_id (example_agreement ''ACTIVE'') = ''provider-automotors-oem''"
    "ag_consumer_id (example_agreement ''ACTIVE'') = ''consumer-tierone''"
    by (simp_all add: example_agreement_def)
  show ?thesis
    using h1 h2 h3
      initiate_transfer_outcomes
        [of "agreement_store ''ACTIVE''"
            "\<lparr>tq_agreement_id = ''agreement-4e5f6a7b'', tq_data_destination = None,
              tq_format = Some ''HTTP_PUSH''\<rparr>" "''8c9d0e1f2a3b''" fixed_clock]
      initiate_transfer_outcomes
        [of "agreement_store ''SUSPENDED''"
            "\<lparr>tq_agreement_id = ''agreement-4e5f6a7b'', tq_data_destination = None,
              tq_format = Some ''HTTP_PUSH''\<rparr>" "''8c9d0e1f2a3b''" fixed_clock]
      initiate_transfer_outcomes
        [of "agreement_store ''ACTIVE''"
            "\<lparr>tq_agreement_id = ''agreement-00000000'', tq_data_destination = None,
              tq_format = Some ''HTTP_PUSH''\<rparr>" "''8c9d0e1f2a3b''" fixed_clock]
    by (auto simp add: ag)
qed


text \<open>The invariant of the store holds at start-up and after every request.\<close>

lemma store_inv_initialize: "store_inv (initialize_store clk)"
  by (simp add: store_inv_def initialize_store_def)

lemma store_inv_guarded_update:
  assumes inv: "store_inv s" and upd: "guarded_update s nid s'"
  shows "store_inv s'"
proof (cases "negotiations s' = negotiations s")
  case True
  with inv upd show ?thesis by (simp add: store_inv_def guarded_update_def)
next
  case False
  with upd obtain n n' where n: "negotiations s nid = Some n" and nf: "n_state n \<noteq> FINALIZED"
    and id': "n_id n' = n_id n"
    and negs: "negotiations s' = (negotiations s)(nid \<mapsto> n', n_id n' \<mapsto> n')"
    and ags: "agreements s' = agreements s"
    by (auto simp: guarded_update_def split: option.splits)
  from inv n have id: "n_id n = nid" by (simp add: store_inv_def)
  have negs': "negotiations s' = (negotiations s)(nid \<mapsto> n')"
    using negs id id' by simp
  show ?thesis
    unfolding store_inv_def
  proof (intro conjI allI impI)
    fix k m assume "negotiations s' k = Some m"
    then show "n_id m = k"
      using inv id id' by (auto simp: negs' store_inv_def split: if_splits)
  next
    fix k a assume a: "agreements s' k = Some a"
    then have "agreements s k = Some a" by (simp add: ags)
    with inv obtain m where m: "negotiations s (ag_negotiation_id a) = Some m"
      "n_state m = FINALIZED" "n_agreement_id m = Some k"
      unfolding store_inv_def by blast
    from m n nf have "ag_negotiation_id a \<noteq> nid" by auto
    with m show "\<exists>n. negotiations s' (ag_negotiation_id a) = Some n
                 \<and> n_state n = FINALIZED \<and> n_agreement_id n = Some k"
      by (simp add: negs')
  qed
qed

lemma finalize_agreement_unchanged:
  "\<not> (\<exists>n. negotiations s nid = Some n \<and> n_state n = VERIFIED)
   \<Longrightarrow> snd (finalize_agreement nid uuid_hex clk s) = s
       \<and> isl (fst (finalize_agreement nid uuid_hex clk s))"
  by (cases "negotiations s nid") (auto simp: finalize_agreement_def get_negotiation_def)

lemma finalize_agreement_success:
  assumes "negotiations s nid = Some n" and "n_state n = VERIFIED"
  shows "\<not> isl (fst (finalize_agreement nid uuid_hex clk s))"
    and "agreements (snd (finalize_agreement nid uuid_hex clk s)) =
           (agreements s)(''agreement-'' @ take 8 uuid_hex \<mapsto>
              issued nid n (''agreement-'' @ take 8 uuid_hex) (clk 0))"
    and "negotiations (snd (finalize_agreement nid uuid_hex clk s)) =
           (negotiations s)(nid \<mapsto> finalized n (''agreement-'' @ take 8 uuid_hex) (clk 0),
              n_id n \<mapsto> finalized n (''agreement-'' @ take 8 uuid_hex) (clk 0))"
  using assms
  by (simp_all add: finalize_agreement_def get_negotiation_def Let_def save_negotiation_def
      save_agreement_def finalized_def issued_def)

lemma store_inv_finalize_agreement:
  assumes inv: "store_inv s"
  shows "store_inv (snd (finalize_agreement nid uuid_hex clk s))"
proof (cases "\<exists>n. negotiations s nid = Some n \<and> n_state n = VERIFIED")
  case False
  then show ?thesis using inv by (simp add: finalize_agreement_unchanged)
next
  case True
  then obtain n where n: "negotiations s nid = Some n" "n_state n = VERIFIED" by blast
  let ?aid = "''agreement-'' @ take 8 uuid_hex"
  let ?s' = "snd (finalize_agreement nid uuid_hex clk s)"
  from inv n have id: "n_id n = nid" by (simp add: store_inv_def)
  have ags: "agreements ?s' = (agreements s)(?aid \<mapsto> issued nid n ?aid (clk 0))"
    by (rule finalize_agreement_success(2) [OF n])
  have negs: "negotiations ?s' = (negotiations s)(nid \<mapsto> finalized n ?aid (clk 0))"
    using finalize_agreement_success(3) [OF n, of uuid_hex clk] id by simp
  show ?thesis
    unfolding store_inv_def
  proof (intro conjI allI impI)
    fix k m assume "negotiations ?s' k = Some m"
    then show "n_id m = k"
      using inv id by (auto simp: negs store_inv_def finalized_def split: if_splits)
  next
    fix k a assume a: "agreements ?s' k = Some a"
    show "\<exists>m. negotiations ?s' (ag_negotiation_id a) = Some m
                 \<and> n_state m = FINALIZED \<and> n_agreement_id m = Some k"
    proof (cases "k = ?aid")
      case True
      with a have "a = issued nid n ?aid (clk 0)" by (simp add: ags)
      then show ?thesis using True by (simp add: negs issued_def finalized_def)
    next
      case False
      with a have "agreements s k = Some a" by (simp add: ags)
      with inv obtain m where m: "negotiations s (ag_negotiation_id a) = Some m"
        "n_state m = FINALIZED" "n_agreement_id m = Some k"
        unfolding store_inv_def by blast
      from m n have "ag_negotiation_id a \<noteq> nid" by auto
      with m show ?thesis by (simp add: negs)
    qed
  qed
qed

lemma initiate_negotiation_store:
  "agreements (snd (initiate_negotiation request uuid_hex clk s)) = agreements s
   \<and> (negotiations (snd (initiate_negotiation request uuid_hex clk s)) = negotiations s
      \<or> (case negotiations (snd (initiate_negotiation request uuid_hex clk s))
            (''negotiation-'' @ take 8 uuid_hex) of
           None \<Rightarrow> False
         | Some n0 \<Rightarrow> n_id n0 = ''negotiation-'' @ take 8 uuid_hex
             \<and> negotiations (snd (initiate_negotiation request uuid_hex clk s)) =
                 (negotiations s)(''negotiation-'' @ take 8 uuid_hex \<mapsto> n0)))"
proof (cases "get_asset_by_id s (rq_asset_id request)")
  case None
  then show ?thesis by (simp add: initiate_negotiation_def)
next
  case (Some asset)
  then show ?thesis
    by (cases "map_of POLICY_TEMPLATES
                 (case a_policy_id asset of None \<Rightarrow> ''open-access'' | Some pid \<Rightarrow> pid)")
       (simp_all add: initiate_negotiation_def Let_def save_negotiation_def)
qed

lemma store_inv_initiate_negotiation:
  assumes inv: "store_inv s"
    and fresh: "negotiations s (''negotiation-'' @ take 8 uuid_hex) = None"
  shows "store_inv (snd (initiate_negotiation request uuid_hex clk s))"
proof -
  let ?k = "''negotiation-'' @ take 8 uuid_hex"
  let ?s' = "snd (initiate_negotiation request uuid_hex clk s)"
  have ags: "agreements ?s' = agreements s"
    using initiate_negotiation_store [of request uuid_hex clk s] by simp
  show ?thesis
  proof (cases "negotiations ?s' = negotiations s")
    case True
    with inv ags show ?thesis by (simp add: store_inv_def)
  next
    case False
    with initiate_negotiation_store [of request uuid_hex clk s]
    obtain n0 where id: "n_id n0 = ?k" and negs: "negotiations ?s' = (negotiations s)(?k \<mapsto> n0)"
      by (auto split: option.splits)
    show ?thesis
      unfolding store_inv_def
    proof (intro conjI allI impI)
      fix j m assume "negotiations ?s' j = Some m"
      then show "n_id m = j"
        using inv id by (auto simp: negs store_inv_def split: if_splits)
    next
      fix j a assume "agreements ?s' j = Some a"
      then have "agreements s j = Some a" by (simp add: ags)
      with inv obtain m where m: "negotiations s (ag_negotiation_id a) = Some m"
        "n_state m = FINALIZED" "n_agreement_id m = Some j"
        unfolding store_inv_def by blast
      from m fresh have "ag_negotiation_id a \<noteq> ?k" by auto
      with m show "\<exists>n. negotiations ?s' (ag_negotiation_id a) = Some n
                 \<and> n_state n = FINALIZED \<and> n_agreement_id n = Some j"
        by (simp add: negs)
    qed
  qed
qed

lemma transfer_handlers_store:
  "negotiations (snd (initiate_transfer request uuid_hex clk s)) = negotiations s
   \<and> agreements (snd (initiate_transfer request uuid_hex clk s)) = agreements s"
  "negotiations (snd (start_transfer tid clk s)) = negotiations s
   \<and> agreements (snd (start_transfer tid clk s)) = agreements s"
  "negotiations (snd (complete_transfer files tid clk s)) = negotiations s
   \<and> agreements (snd (complete_transfer files tid clk s)) = agreements s"
  "negotiations (snd (suspend_transfer tid clk s)) = negotiations s
   \<and> agreements (snd (suspend_transfer tid clk s)) = agreements s"
  "negotiations (snd (terminate_transfer tid clk s)) = negotiations s
   \<and> agreements (snd (terminate_transfer tid clk s)) = agreements s"
  by (simp_all add: initiate_transfer_def start_transfer_def complete_transfer_def
      suspend_transfer_def terminate_transfer_def Let_def save_transfer_def get_agreement_def
      get_transfer_def split: option.split)

lemma store_inv_handle:
  "store_inv s \<Longrightarrow> draws_unused call s \<Longrightarrow> store_inv (snd (handle files call clk s))"
proof (cases call)
  case (InitiateNegotiation request uuid_hex)
  then show "store_inv s \<Longrightarrow> draws_unused call s \<Longrightarrow> ?thesis"
    by (simp add: store_inv_initiate_negotiation)
next
  case (ProviderOffer nid action)
  then show "store_inv s \<Longrightarrow> ?thesis"
    by (simp add: store_inv_guarded_update [OF _ provider_offer_store])
next
  case (ConsumerAgree nid)
  then show "store_inv s \<Longrightarrow> ?thesis"
    by (simp add: store_inv_guarded_update [OF _ consumer_agree_store])
next
  case (VerifyAgreement nid)
  then show "store_inv s \<Longrightarrow> ?thesis"
    by (simp add: store_inv_guarded_update [OF _ verify_agreement_store])
next
  case (FinalizeAgreement nid uuid_hex)
  then show "store_inv s \<Longrightarrow> ?thesis"
    by (simp add: store_inv_finalize_agreement)
next
  case (TerminateNegotiation nid)
  then show "store_inv s \<Longrightarrow> ?thesis"
    by (simp add: store_inv_guarded_update [OF _ terminate_negotiation_store])
next
  case ResetDemo
  then show ?thesis by (simp add: store_inv_initialize)
qed (simp_all add: store_inv_def transfer_handlers_store)

lemma reachable_store_inv: "reachable files s \<Longrightarrow> store_inv s"
  by (induction rule: reachable.induct) (simp_all add: store_inv_initialize store_inv_handle)

lemma guarded_update_agreements: "guarded_update s nid s' \<Longrightarrow> agreements s' = agreements s"
  by (simp add: guarded_update_def)

lemma handle_agreements:
  assumes "\<And>nid u. call \<noteq> FinalizeAgreement nid u"
  shows "agreements (snd (handle files call clk s)) = agreements s
       \<or> agreements (snd (handle files call clk s)) = Map.empty"
  using assms
  by (cases call)
     (auto simp add: guarded_update_agreements [OF provider_offer_store]
        guarded_update_agreements [OF consumer_agree_store]
        guarded_update_agreements [OF verify_agreement_store]
        guarded_update_agreements [OF terminate_negotiation_store]
        initiate_negotiation_store transfer_handlers_store initialize_store_def)

lemma finalize_agreement_not_found:
  "negotiations s nid = None
   \<Longrightarrow> finalize_agreement nid u clk s = (Inl (HTTPException 404 ''NEGOTIATION_NOT_FOUND'' None), s)"
  by (simp add: finalize_agreement_def get_negotiation_def)

lemma finalize_agreement_invalid_state:
  "negotiations s nid = Some n \<Longrightarrow> n_state n \<noteq> VERIFIED
   \<Longrightarrow> \<exists>msg. finalize_agreement nid u clk s = (Inl (HTTPException 400 ''INVALID_STATE'' (Some msg)), s)"
  by (simp add: finalize_agreement_def get_negotiation_def)

lemma store_inv_one_agreement:
  assumes "store_inv s" and "agreements s k1 = Some a1" and "agreements s k2 = Some a2"
    and "ag_negotiation_id a1 = ag_negotiation_id a2"
  shows "k1 = k2"
  using assms unfolding store_inv_def by (metis option.inject)

text \<open>
  Claim C5. Start from any store that the provider can reach and handle one request in
  it, \<open>uuid4\<close> drawing an id that is not in use and the attributes that the request
  carries being ASCII. Every agreement of the store after the
  request either was in the store before, as it is, or is the one that the request, a
  finalize that succeeds, has created. A finalize fails with \<open>NEGOTIATION_NOT_FOUND\<close> or,
  unless the negotiation is \<open>VERIFIED\<close>, with \<open>INVALID_STATE\<close>, leaving the store as it
  was; on a \<open>VERIFIED\<close> negotiation it succeeds, adds exactly one agreement, whose status
  is \<open>ACTIVE\<close> and whose \<open>negotiation_id\<close> is that of the negotiation, and leaves the
  negotiation \<open>FINALIZED\<close> with the id of the agreement stored on it. And no two
  agreements of the store belong to the same negotiation.
\<close>

theorem agreement_iff_finalize:
  assumes reach: "reachable files s" and unused: "draws_unused call s"
    and attrs: "ascii_call call"
  shows "(\<forall>k a. agreements (snd (handle files call clk s)) k = Some a
            \<longrightarrow> agreements s k = Some a
                \<or> (\<exists>nid u. call = FinalizeAgreement nid u \<and> k = ''agreement-'' @ take 8 u
                        \<and> \<not> isl (fst (handle files call clk s))))
       \<and> (\<forall>nid u. call = FinalizeAgreement nid u \<longrightarrow>
            (case negotiations s nid of
               None \<Rightarrow> handle files call clk s =
                         (Inl (HTTPException 404 ''NEGOTIATION_NOT_FOUND'' None), s)
             | Some n \<Rightarrow>
                 if n_state n \<noteq> VERIFIED
                 then (\<exists>msg. handle files call clk s =
                               (Inl (HTTPException 400 ''INVALID_STATE'' (Some msg)), s))
                 else \<not> isl (fst (handle files call clk s))
                      \<and> agreements s (''agreement-'' @ take 8 u) = None
                      \<and> (\<exists>a n'. agreements (snd (handle files call clk s)) =
                                    (agreements s)(''agreement-'' @ take 8 u \<mapsto> a)
                              \<and> ag_negotiation_id a = nid \<and> ag_status a = ''ACTIVE''
                              \<and> negotiations (snd (handle files call clk s)) nid = Some n'
                              \<and> n_state n' = FINALIZED
                              \<and> n_agreement_id n' = Some (''agreement-'' @ take 8 u))))
       \<and> (\<forall>k1 k2 a1 a2. agreements (snd (handle files call clk s)) k1 = Some a1
                        \<and> agreements (snd (handle files call clk s)) k2 = Some a2
                        \<and> ag_negotiation_id a1 = ag_negotiation_id a2 \<longrightarrow> k1 = k2)"
proof (intro conjI)
  have fin: "(case negotiations s nid of
               None \<Rightarrow> finalize_agreement nid u clk s =
                         (Inl (HTTPException 404 ''NEGOTIATION_NOT_FOUND'' None), s)
             | Some n \<Rightarrow>
                 if n_state n \<noteq> VERIFIED
                 then (\<exists>msg. finalize_agreement nid u clk s =
                               (Inl (HTTPException 400 ''INVALID_STATE'' (Some msg)), s))
                 else \<not> isl (fst (finalize_agreement nid u clk s))
                      \<and> (\<exists>a n'. agreements (snd (finalize_agreement nid u clk s)) =
                                    (agreements s)(''agreement-'' @ take 8 u \<mapsto> a)
                              \<and> ag_negotiation_id a = nid \<and> ag_status a = ''ACTIVE''
                              \<and> negotiations (snd (finalize_agreement nid u clk s)) nid = Some n'
                              \<and> n_state n' = FINALIZED
                              \<and> n_agreement_id n' = Some (''agreement-'' @ take 8 u)))" for nid u
  proof (cases "negotiations s nid")
    case None
    then show ?thesis by (simp add: finalize_agreement_not_found)
  next
    case (Some n)
    show ?thesis
    proof (cases "n_state n = VERIFIED")
      case False
      with Some show ?thesis by (simp add: finalize_agreement_invalid_state)
    next
      case True
      let ?aid = "''agreement-'' @ take 8 u"
      have "agreements (snd (finalize_agreement nid u clk s)) =
              (agreements s)(?aid \<mapsto> issued nid n ?aid (clk 0))
            \<and> ag_negotiation_id (issued nid n ?aid (clk 0)) = nid
            \<and> ag_status (issued nid n ?aid (clk 0)) = ''ACTIVE''
            \<and> negotiations (snd (finalize_agreement nid u clk s)) nid =
                  Some (finalized n ?aid (clk 0))
            \<and> n_state (finalized n ?aid (clk 0)) = FINALIZED
            \<and> n_agreement_id (finalized n ?aid (clk 0)) = Some ?aid"
        by (simp add: finalize_agreement_success [OF Some True] issued_def finalized_def)
      then have "\<exists>a n'. agreements (snd (finalize_agreement nid u clk s)) =
                                    (agreements s)(?aid \<mapsto> a)
                              \<and> ag_negotiation_id a = nid \<and> ag_status a = ''ACTIVE''
                              \<and> negotiations (snd (finalize_agreement nid u clk s)) nid = Some n'
                              \<and> n_state n' = FINALIZED
                              \<and> n_agreement_id n' = Some ?aid"
        by blast
      with Some True show ?thesis
        by (simp add: finalize_agreement_success(1) [OF Some True])
    qed
  qed
  show "\<forall>nid u. call = FinalizeAgreement nid u \<longrightarrow>
            (case negotiations s nid of
               None \<Rightarrow> handle files call clk s =
                         (Inl (HTTPException 404 ''NEGOTIATION_NOT_FOUND'' None), s)
             | Some n \<Rightarrow>
                 if n_state n \<noteq> VERIFIED
                 then (\<exists>msg. handle files call clk s =
                               (Inl (HTTPException 400 ''INVALID_STATE'' (Some msg)), s))
                 else \<not> isl (fst (handle files call clk s))
                      \<and> agreements s (''agreement-'' @ take 8 u) = None
                      \<and> (\<exists>a n'. agreements (snd (handle files call clk s)) =
                                    (agreements s)(''agreement-'' @ take 8 u \<mapsto> a)
                              \<and> ag_negotiation_id a = nid \<and> ag_status a = ''ACTIVE''
                              \<and> negotiations (snd (handle files call clk s)) nid = Some n'
                              \<and> n_state n' = FINALIZED
                              \<and> n_agreement_id n' = Some (''agreement-'' @ take 8 u)))"
  proof (intro allI impI)
    fix nid u assume c: "call = FinalizeAgreement nid u"
    with unused have "agreements s (''agreement-'' @ take 8 u) = None" by simp
    with fin [of nid u] c show "case negotiations s nid of
               None \<Rightarrow> handle files call clk s =
                         (Inl (HTTPException 404 ''NEGOTIATION_NOT_FOUND'' None), s)
             | Some n \<Rightarrow>
                 if n_state n \<noteq> VERIFIED
                 then (\<exists>msg. handle files call clk s =
                               (Inl (HTTPException 400 ''INVALID_STATE'' (Some msg)), s))
                 else \<not> isl (fst (handle files call clk s))
                      \<and> agreements s (''agreement-'' @ take 8 u) = None
                      \<and> (\<exists>a n'. agreements (snd (handle files call clk s)) =
                                    (agreements s)(''agreement-'' @ take 8 u \<mapsto> a)
                              \<and> ag_negotiation_id a = nid \<and> ag_status a = ''ACTIVE''
                              \<and> negotiations (snd (handle files call clk s)) nid = Some n'
                              \<and> n_state n' = FINALIZED
                              \<and> n_agreement_id n' = Some (''agreement-'' @ take 8 u))"
      by (auto split: option.splits if_splits)
  qed
  show "\<forall>k a. agreements (snd (handle files call clk s)) k = Some a
            \<longrightarrow> agreements s k = Some a
                \<or> (\<exists>nid u. call = FinalizeAgreement nid u \<and> k = ''agreement-'' @ take 8 u
                        \<and> \<not> isl (fst (handle files call clk s)))"
  proof (intro allI impI)
    fix k a assume some: "agreements (snd (handle files call clk s)) k = Some a"
    show "agreements s k = Some a
          \<or> (\<exists>nid u. call = FinalizeAgreement nid u \<and> k = ''agreement-'' @ take 8 u
                        \<and> \<not> isl (fst (handle files call clk s)))"
    proof (cases "\<exists>nid u. call = FinalizeAgreement nid u")
      case False
      then have "agreements (snd (handle files call clk s)) = agreements s
       \<or> agreements (snd (handle files call clk s)) = Map.empty"
        by (intro handle_agreements) blast
      with some show ?thesis by auto
    next
      case True
      then obtain nid u where c: "call = FinalizeAgreement nid u" by blast
      from fin [of nid u] some c show ?thesis
        by (auto split: option.splits if_splits)
    qed
  qed
  from reach unused attrs have "reachable files (snd (handle files call clk s))"
    by (rule reachable.request)
  then have "store_inv (snd (handle files call clk s))" by (rule reachable_store_inv)
  then show "\<forall>k1 k2 a1 a2. agreements (snd (handle files call clk s)) k1 = Some a1
                        \<and> agreements (snd (handle files call clk s)) k2 = Some a2
                        \<and> ag_negotiation_id a1 = ag_negotiation_id a2 \<longrightarrow> k1 = k2"
    by (blast intro: store_inv_one_agreement)
qed

text \<open>What the transitions before finalize leave in the store when they succeed.\<close>

lemma initiate_negotiation_success:
  assumes "get_asset_by_id s (rq_asset_id request) = Some asset"
    and "map_of POLICY_TEMPLATES
           (case a_policy_id asset of None \<Rightarrow> ''open-access'' | Some pid \<Rightarrow> pid) = Some pol"
  shows "\<not> isl (fst (initiate_negotiation request uuid_hex clk s))"
    and "\<exists>n. negotiations (snd (initiate_negotiation request uuid_hex clk s))
               (''negotiation-'' @ take 8 uuid_hex) = Some n
             \<and> n_state n = REQUESTED
             \<and> n_policy_id n =
                 Some (case a_policy_id asset of None \<Rightarrow> ''open-access'' | Some pid \<Rightarrow> pid)
             \<and> n_consumer_attributes n =
                 Some (case rq_consumer_attributes request of None \<Rightarrow> [] | Some attrs \<Rightarrow> attrs)"
  using assms
  by (simp_all add: initiate_negotiation_def Let_def save_negotiation_def)

lemma provider_offer_allowed:
  assumes "negotiations s nid = Some n" and "n_state n = REQUESTED"
    and "evaluate_call (negotiation_policy n)
           (case action of Some a \<Rightarrow> na_consumer_attributes a
            | None \<Rightarrow> (case n_consumer_attributes n of None \<Rightarrow> Some [] | Some attrs \<Rightarrow> Some attrs))
         = Inr res"
    and "allowed res"
  shows "\<not> isl (fst (provider_offer nid action clk s))"
    and "\<exists>n'. negotiations (snd (provider_offer nid action clk s)) nid = Some n'
             \<and> n_state n' = OFFERED \<and> n_policy_id n' = n_policy_id n
             \<and> n_policy_evaluation n' =
                 Some \<lparr>se_allowed = True, se_reason = None,
                       se_evaluated_constraints = evaluated_constraints res\<rparr>"
  using assms
  by (simp_all add: provider_offer_def get_negotiation_def Let_def save_negotiation_def)

lemma consumer_agree_success:
  assumes "negotiations s nid = Some n" and "n_state n = OFFERED"
  shows "\<not> isl (fst (consumer_agree nid clk s))"
    and "\<exists>n'. negotiations (snd (consumer_agree nid clk s)) nid = Some n'
             \<and> n_state n' = AGREED \<and> n_policy_id n' = n_policy_id n"
  using assms
  by (simp_all add: consumer_agree_def get_negotiation_def Let_def save_negotiation_def)

lemma verify_agreement_success:
  assumes "negotiations s nid = Some n" and "n_state n = AGREED"
  shows "\<not> isl (fst (verify_agreement nid clk s))"
    and "\<exists>n'. negotiations (snd (verify_agreement nid clk s)) nid = Some n'
             \<and> n_state n' = VERIFIED \<and> n_policy_id n' = n_policy_id n"
  using assms
  by (simp_all add: verify_agreement_def get_negotiation_def Let_def save_negotiation_def)

text \<open>
  Claim C5, witness: the store reached from start-up by a tier-1 supplier's request for
  the part catalog, offered, agreed and verified; finalize on it issues the one
  agreement of the store.
\<close>

theorem agreement_iff_finalize_witness:
  "reachable sample_files verified_store
   \<and> draws_unused (FinalizeAgreement ''negotiation-0a1b2c3d'' ''4e5f6a7b8c9d'') verified_store
   \<and> ascii_call (FinalizeAgreement ''negotiation-0a1b2c3d'' ''4e5f6a7b8c9d'')
   \<and> \<not> isl (fst (handle sample_files
                      (FinalizeAgreement ''negotiation-0a1b2c3d'' ''4e5f6a7b8c9d'')
                      fixed_clock verified_store))
   \<and> (\<exists>a. agreements (snd (handle sample_files
                             (FinalizeAgreement ''negotiation-0a1b2c3d'' ''4e5f6a7b8c9d'')
                             fixed_clock verified_store)) =
              [''agreement-4e5f6a7b'' \<mapsto> a]
          \<and> ag_negotiation_id a = ''negotiation-0a1b2c3d'' \<and> ag_status a = ''ACTIVE'')"
proof -
  let ?nid = "''negotiation-0a1b2c3d''"
  let ?s0 = "initialize_store fixed_clock"
  let ?s1 = "snd (initiate_negotiation part_catalog_request ''0a1b2c3d4e5f'' fixed_clock ?s0)"
  let ?s2 = "snd (provider_offer ?nid None fixed_clock ?s1)"
  let ?s3 = "snd (consumer_agree ?nid fixed_clock ?s2)"
  let ?call = "FinalizeAgreement ?nid ''4e5f6a7b8c9d''"
  have r0: "reachable sample_files ?s0"
    by (rule reachable.startup)
  have r1: "reachable sample_files ?s1"
    using reachable.request
      [OF r0, of "InitiateNegotiation part_catalog_request ''0a1b2c3d4e5f''" fixed_clock]
    by (simp add: initialize_store_def part_catalog_request_def ascii_defs)
  have r2: "reachable sample_files ?s2"
    using reachable.request [OF r1, of "ProviderOffer ?nid None" fixed_clock] by simp
  have r3: "reachable sample_files ?s3"
    using reachable.request [OF r2, of "ConsumerAgree ?nid" fixed_clock] by simp
  have r4: "reachable sample_files verified_store"
    using reachable.request [OF r3, of "VerifyAgreement ?nid" fixed_clock]
    by (simp add: verified_store_def)
  have asset: "get_asset_by_id ?s0 (rq_asset_id part_catalog_request) =
                 Some \<lparr>a_id = ''part-catalog-2024'', a_name = ''2024 Vehicle Part Catalog'',
                       a_policy_id = Some ''tier1-only'',
                       a_data_file = Some ''part-catalog.json''\<rparr>"
    by (simp add: get_asset_by_id_def initialize_store_def sample_assets_def
        part_catalog_request_def)
  have pol: "map_of POLICY_TEMPLATES ''tier1-only'' = Some TIER1_SUPPLIER_ONLY_POLICY"
    by (simp add: POLICY_TEMPLATES_def)
  from initiate_negotiation_success(2) [OF asset, of TIER1_SUPPLIER_ONLY_POLICY
      "''0a1b2c3d4e5f''" fixed_clock]
  obtain n1 where n1: "negotiations ?s1 ?nid = Some n1" "n_state n1 = REQUESTED"
    "n_policy_id n1 = Some ''tier1-only''"
    "n_consumer_attributes n1 = Some [(''partner_type'', VStr ''tier1_supplier'')]"
    by (auto simp add: pol part_catalog_request_def)
  have ev: "evaluate_call (negotiation_policy n1)
           (case None of Some a \<Rightarrow> na_consumer_attributes a
            | None \<Rightarrow> (case n_consumer_attributes n1 of
                         None \<Rightarrow> Some [] | Some attrs \<Rightarrow> Some attrs))
         = Inr \<lparr>allowed = True, reason = ''All permission constraints satisfied'',
                evaluated_constraints =
                  [\<lparr>e_constraint = ''partner_type eq tier1_supplier'',
                    e_context_value = VStr ''tier1_supplier'', e_satisfied = True\<rparr>]\<rparr>"
    by (simp add: n1 negotiation_policy_def pol evaluate_call_def
        TIER1_SUPPLIER_ONLY_POLICY_def evaluator_defs)
  from provider_offer_allowed(2) [OF n1(1,2) ev, of fixed_clock]
  obtain n2 where n2: "negotiations ?s2 ?nid = Some n2" "n_state n2 = OFFERED"
    by auto
  from consumer_agree_success(2) [OF n2, of fixed_clock]
  obtain n3 where n3: "negotiations ?s3 ?nid = Some n3" "n_state n3 = AGREED"
    by auto
  from verify_agreement_success(2) [OF n3, of fixed_clock]
  obtain n4 where n4: "negotiations verified_store ?nid = Some n4" "n_state n4 = VERIFIED"
    by (auto simp add: verified_store_def)
  have ags: "agreements verified_store = Map.empty"
    by (simp add: verified_store_def
        guarded_update_agreements [OF verify_agreement_store]
        guarded_update_agreements [OF consumer_agree_store]
        guarded_update_agreements [OF provider_offer_store]
        initiate_negotiation_store initialize_store_def)
  have unused: "draws_unused ?call verified_store"
    by (simp add: ags)
  have asc: "ascii_call ?call"
    by simp
  show ?thesis
    using r4 unused asc agreement_iff_finalize [OF r4 unused asc, of fixed_clock]
    by (auto simp add: n4 ags)
qed

text \<open>The policy id of a negotiation stays through every request but a reset.\<close>

lemma bound_to_guarded_update:
  assumes inv: "store_inv s" and upd: "guarded_update s k s'" and b: "bound_to s nid pid"
  shows "bound_to s' nid pid"
proof (cases "negotiations s' = negotiations s")
  case True
  with b show ?thesis by (simp add: bound_to_def)
next
  case False
  with upd obtain n n' where n: "negotiations s k = Some n"
    and id': "n_id n' = n_id n" and pol: "n_policy_id n' = n_policy_id n"
    and negs: "negotiations s' = (negotiations s)(k \<mapsto> n', n_id n' \<mapsto> n')"
    by (auto simp: guarded_update_def split: option.splits)
  from inv n have id: "n_id n = k" by (simp add: store_inv_def)
  have negs': "negotiations s' = (negotiations s)(k \<mapsto> n')"
    using negs id id' by simp
  from b n pol show ?thesis
    by (auto simp add: bound_to_def negs' split: option.splits)
qed

lemma bound_to_finalize_agreement:
  assumes inv: "store_inv s" and b: "bound_to s nid pid"
  shows "bound_to (snd (finalize_agreement k uuid_hex clk s)) nid pid"
proof (cases "\<exists>n. negotiations s k = Some n \<and> n_state n = VERIFIED")
  case False
  then show ?thesis using b by (simp add: finalize_agreement_unchanged)
next
  case True
  then obtain n where n: "negotiations s k = Some n" "n_state n = VERIFIED" by blast
  from inv n have id: "n_id n = k" by (simp add: store_inv_def)
  have negs: "negotiations (snd (finalize_agreement k uuid_hex clk s)) =
                (negotiations s)(k \<mapsto> finalized n (''agreement-'' @ take 8 uuid_hex) (clk 0))"
    using finalize_agreement_success(3) [OF n, of uuid_hex clk] id by simp
  from b n show ?thesis
    by (auto simp add: bound_to_def negs finalized_def split: option.splits)
qed

lemma bound_to_initiate_negotiation:
  assumes fresh: "negotiations s (''negotiation-'' @ take 8 uuid_hex) = None"
    and b: "bound_to s nid pid"
  shows "bound_to (snd (initiate_negotiation request uuid_hex clk s)) nid pid"
proof (cases "negotiations (snd (initiate_negotiation request uuid_hex clk s)) = negotiations s")
  case True
  with b show ?thesis by (simp add: bound_to_def)
next
  case False
  with initiate_negotiation_store [of request uuid_hex clk s]
  obtain n0 where negs: "negotiations (snd (initiate_negotiation request uuid_hex clk s)) =
                           (negotiations s)(''negotiation-'' @ take 8 uuid_hex \<mapsto> n0)"
    by (auto split: option.splits)
  from b fresh show ?thesis
    by (auto simp add: bound_to_def negs split: option.splits)
qed

lemma bound_to_handle:
  assumes inv: "store_inv s" and unused: "draws_unused call s" and nr: "call \<noteq> ResetDemo"
    and b: "bound_to s nid pid"
  shows "bound_to (snd (handle files call clk s)) nid pid"
proof (cases call)
  case (InitiateNegotiation request uuid_hex)
  with unused b show ?thesis by (simp add: bound_to_initiate_negotiation)
next
  case (ProviderOffer k action)
  with inv b show ?thesis by (simp add: bound_to_guarded_update [OF _ provider_offer_store])
next
  case (ConsumerAgree k)
  with inv b show ?thesis by (simp add: bound_to_guarded_update [OF _ consumer_agree_store])
next
  case (VerifyAgreement k)
  with inv b show ?thesis by (simp add: bound_to_guarded_update [OF _ verify_agreement_store])
next
  case (FinalizeAgreement k uuid_hex)
  with inv b show ?thesis by (simp add: bound_to_finalize_agreement)
next
  case (TerminateNegotiation k)
  with inv b show ?thesis
    by (simp add: bound_to_guarded_update [OF _ terminate_negotiation_store])
next
  case ResetDemo
  with nr show ?thesis by simp
qed (use b in \<open>simp_all add: bound_to_def transfer_handlers_store\<close>)

text \<open>The open-access template grants every request for \<open>USE\<close>.\<close>

lemma upper_USE: "upper ''USE'' = ''USE''" "upper ''DISTRIBUTE'' = ''DISTRIBUTE''"
  by (simp_all add: upper_def upper_char_def)

lemma open_access_grants_use:
  assumes "action_matches ''USE'' (request_action ctx) = Inr True"
  shows "evaluate OPEN_ACCESS_POLICY ctx =
           Inr \<lparr>allowed = True, reason = ''Permission granted (no constraints)'',
                evaluated_constraints = []\<rparr>"
proof -
  from assms obtain ra where ra: "request_action ctx = VStr ra" and u: "upper ra = ''USE''"
    by (cases "request_action ctx") (auto simp: upper_USE)
  show ?thesis
    by (simp add: evaluate_def OPEN_ACCESS_POLICY_def ra u upper_USE)
qed

lemma open_access_template: "map_of POLICY_TEMPLATES ''open-access'' = Some OPEN_ACCESS_POLICY"
  by (simp add: POLICY_TEMPLATES_def)

lemma open_access_description:
  "get_policy_description OPEN_ACCESS_POLICY = ''Allows USE; Prohibits DISTRIBUTE''"
  by (simp add: get_policy_description_def OPEN_ACCESS_POLICY_def perm_description_def)

lemma open_access_offer:
  assumes n: "negotiations t nid = Some n" and st: "n_state n = REQUESTED"
    and pid: "n_policy_id n = Some ''open-access''"
    and attrs: "(case action of
                   Some a \<Rightarrow> na_consumer_attributes a
                 | None \<Rightarrow> (case n_consumer_attributes n of
                              None \<Rightarrow> Some [] | Some attrs \<Rightarrow> Some attrs)) = Some ctx"
    and use: "action_matches ''USE'' (request_action ctx) = Inr True"
  shows "\<not> isl (fst (provider_offer nid action clk t))
       \<and> (\<exists>n'. negotiations (snd (provider_offer nid action clk t)) nid = Some n'
                \<and> n_state n' = OFFERED \<and> n_policy_id n' = Some ''open-access''
                \<and> n_policy_evaluation n' =
                    Some \<lparr>se_allowed = True, se_reason = None,
                          se_evaluated_constraints = []\<rparr>)"
proof -
  have pol: "negotiation_policy n = Some OPEN_ACCESS_POLICY"
    by (simp add: negotiation_policy_def pid open_access_template)
  have ev: "evaluate_call (negotiation_policy n)
           (case action of Some a \<Rightarrow> na_consumer_attributes a
            | None \<Rightarrow> (case n_consumer_attributes n of None \<Rightarrow> Some [] | Some attrs \<Rightarrow> Some attrs))
         = Inr \<lparr>allowed = True, reason = ''Permission granted (no constraints)'',
                evaluated_constraints = []\<rparr>"
    by (simp add: attrs pol evaluate_call_def open_access_grants_use [OF use])
  have i: "\<not> isl (fst (provider_offer nid action clk t))"
    by (rule provider_offer_allowed(1) [OF n st ev]) simp
  from provider_offer_allowed(2) [OF n st ev, of clk] pid i show ?thesis
    by auto
qed

lemma open_access_finalize:
  assumes n: "negotiations t nid = Some n" and st: "n_state n = VERIFIED"
    and pid: "n_policy_id n = Some ''open-access''"
  shows "\<not> isl (fst (finalize_agreement nid uuid_hex clk t))
       \<and> (\<exists>a. agreements (snd (finalize_agreement nid uuid_hex clk t))
                  (''agreement-'' @ take 8 uuid_hex) = Some a
              \<and> ag_negotiation_id a = nid
              \<and> ag_policy_id a = Some ''open-access''
              \<and> ag_policy_description a = ''Allows USE; Prohibits DISTRIBUTE''
              \<and> ag_status a = ''ACTIVE'')"
proof -
  have pol: "negotiation_policy n = Some OPEN_ACCESS_POLICY"
    by (simp add: negotiation_policy_def pid open_access_template)
  show ?thesis
    by (simp add: finalize_agreement_success(1) [OF n st] finalize_agreement_success(2) [OF n st]
        issued_def pid pol open_access_description)
qed

text \<open>
  Claim C10. When the asset record has no \<open>policy_id\<close>, \<open>initiate_negotiation\<close> does not
  fail: it files the negotiation under the policy id \<open>open-access\<close>, which names the
  template \<open>OPEN_ACCESS_POLICY\<close>, and that template grants every request whose action is
  \<open>USE\<close> without checking a constraint. The negotiation stays bound to \<open>open-access\<close>
  through every later request but a reset of the store. An offer on it, in whatever store
  holds it, evaluates that template: when the request is for \<open>USE\<close> the offer is made and
  the evaluation stored has no constraint. A finalize on it issues an agreement under
  \<open>open-access\<close>. The attributes of the offer are those of its body, or those stored at
  the request when it has no body; contexts are ASCII, and \<open>uuid4\<close> draws an id that is
  not in use.
\<close>

theorem missing_policy_id_binds_open_access:
  assumes asset: "get_asset_by_id s (rq_asset_id request) = Some asset"
    and missing: "a_policy_id asset = None"
  shows "\<not> isl (fst (initiate_negotiation request u clk s))
       \<and> bound_to (snd (initiate_negotiation request u clk s))
            (''negotiation-'' @ take 8 u) ''open-access''
       \<and> map_of POLICY_TEMPLATES ''open-access'' = Some OPEN_ACCESS_POLICY
       \<and> (\<forall>ctx. ascii_context ctx \<and> action_matches ''USE'' (request_action ctx) = Inr True
            \<longrightarrow> evaluate OPEN_ACCESS_POLICY ctx =
                  Inr \<lparr>allowed = True, reason = ''Permission granted (no constraints)'',
                       evaluated_constraints = []\<rparr>)
       \<and> (\<forall>t nid call c.
             store_inv t \<and> draws_unused call t \<and> ascii_call call \<and> call \<noteq> ResetDemo
             \<and> bound_to t nid ''open-access''
            \<longrightarrow> bound_to (snd (handle files call c t)) nid ''open-access'')
       \<and> (\<forall>t nid n action ctx c.
             negotiations t nid = Some n \<and> n_state n = REQUESTED
             \<and> n_policy_id n = Some ''open-access''
             \<and> (case action of
                   Some a \<Rightarrow> na_consumer_attributes a
                 | None \<Rightarrow> (case n_consumer_attributes n of
                              None \<Rightarrow> Some [] | Some attrs \<Rightarrow> Some attrs)) = Some ctx
             \<and> ascii_context ctx
             \<and> action_matches ''USE'' (request_action ctx) = Inr True
            \<longrightarrow> \<not> isl (fst (provider_offer nid action c t))
                \<and> (\<exists>n'. negotiations (snd (provider_offer nid action c t)) nid = Some n'
                         \<and> n_state n' = OFFERED \<and> n_policy_id n' = Some ''open-access''
                         \<and> n_policy_evaluation n' =
                             Some \<lparr>se_allowed = True, se_reason = None,
                                   se_evaluated_constraints = []\<rparr>))
       \<and> (\<forall>t nid n v c.
             negotiations t nid = Some n \<and> n_state n = VERIFIED
             \<and> n_policy_id n = Some ''open-access''
            \<longrightarrow> \<not> isl (fst (finalize_agreement nid v c t))
                \<and> (\<exists>a. agreements (snd (finalize_agreement nid v c t))
                           (''agreement-'' @ take 8 v) = Some a
                       \<and> ag_negotiation_id a = nid
                       \<and> ag_policy_id a = Some ''open-access''
                       \<and> ag_policy_description a = ''Allows USE; Prohibits DISTRIBUTE''
                       \<and> ag_status a = ''ACTIVE''))"
proof (intro conjI allI impI)
  have tmpl: "map_of POLICY_TEMPLATES
                (case a_policy_id asset of None \<Rightarrow> ''open-access'' | Some pid \<Rightarrow> pid) =
              Some OPEN_ACCESS_POLICY"
    by (simp add: missing open_access_template)
  show "\<not> isl (fst (initiate_negotiation request u clk s))"
    by (rule initiate_negotiation_success(1) [OF asset tmpl])
  from initiate_negotiation_success(2) [OF asset tmpl, of u clk]
  show "bound_to (snd (initiate_negotiation request u clk s))
          (''negotiation-'' @ take 8 u) ''open-access''"
    by (auto simp add: bound_to_def missing)
  show "map_of POLICY_TEMPLATES ''open-access'' = Some OPEN_ACCESS_POLICY"
    by (rule open_access_template)
next
  fix ctx
  assume "ascii_context ctx \<and> action_matches ''USE'' (request_action ctx) = Inr True"
  then show "evaluate OPEN_ACCESS_POLICY ctx =
               Inr \<lparr>allowed = True, reason = ''Permission granted (no constraints)'',
                    evaluated_constraints = []\<rparr>"
    by (simp add: open_access_grants_use)
next
  fix t :: store and nid call c
  assume "store_inv t \<and> draws_unused call t \<and> ascii_call call \<and> call \<noteq> ResetDemo
          \<and> bound_to t nid ''open-access''"
  then show "bound_to (snd (handle files call c t)) nid ''open-access''"
    by (simp add: bound_to_handle)
next
  fix t :: store and nid and n :: negotiation and action :: "negotiation_action option"
    and ctx c
  assume h: "negotiations t nid = Some n \<and> n_state n = REQUESTED
             \<and> n_policy_id n = Some ''open-access''
             \<and> (case action of
                   Some a \<Rightarrow> na_consumer_attributes a
                 | None \<Rightarrow> (case n_consumer_attributes n of
                              None \<Rightarrow> Some [] | Some attrs \<Rightarrow> Some attrs)) = Some ctx
             \<and> ascii_context ctx
             \<and> action_matches ''USE'' (request_action ctx) = Inr True"
  then have h1: "negotiations t nid = Some n" and h2: "n_state n = REQUESTED"
    and h3: "n_policy_id n = Some ''open-access''"
    and h4: "(case action of
                   Some a \<Rightarrow> na_consumer_attributes a
                 | None \<Rightarrow> (case n_consumer_attributes n of
                              None \<Rightarrow> Some [] | Some attrs \<Rightarrow> Some attrs)) = Some ctx"
    and h5: "action_matches ''USE'' (request_action ctx) = Inr True"
    by simp_all
  have "\<not> isl (fst (provider_offer nid action c t))
       \<and> (\<exists>n'. negotiations (snd (provider_offer nid action c t)) nid = Some n'
                \<and> n_state n' = OFFERED \<and> n_policy_id n' = Some ''open-access''
                \<and> n_policy_evaluation n' =
                    Some \<lparr>se_allowed = True, se_reason = None,
                          se_evaluated_constraints = []\<rparr>)"
    by (rule open_access_offer [OF h1 h2 h3 h4 h5])
  then show "\<not> isl (fst (provider_offer nid action c t))"
    and "\<exists>n'. negotiations (snd (provider_offer nid action c t)) nid = Some n'
                \<and> n_state n' = OFFERED \<and> n_policy_id n' = Some ''open-access''
                \<and> n_policy_evaluation n' =
                    Some \<lparr>se_allowed = True, se_reason = None,
                          se_evaluated_constraints = []\<rparr>"
    by simp_all
next
  fix t :: store and nid and n :: negotiation and v c
  assume h: "negotiations t nid = Some n \<and> n_state n = VERIFIED
             \<and> n_policy_id n = Some ''open-access''"
  then have h1: "negotiations t nid = Some n" and h2: "n_state n = VERIFIED"
    and h3: "n_policy_id n = Some ''open-access''"
    by simp_all
  have "\<not> isl (fst (finalize_agreement nid v c t))
       \<and> (\<exists>a. agreements (snd (finalize_agreement nid v c t))
                  (''agreement-'' @ take 8 v) = Some a
              \<and> ag_negotiation_id a = nid
              \<and> ag_policy_id a = Some ''open-access''
              \<and> ag_policy_description a = ''Allows USE; Prohibits DISTRIBUTE''
              \<and> ag_status a = ''ACTIVE'')"
    by (rule open_access_finalize [OF h1 h2 h3])
  then show "\<not> isl (fst (finalize_agreement nid v c t))"
    and "\<exists>a. agreements (snd (finalize_agreement nid v c t))
                  (''agreement-'' @ take 8 v) = Some a
              \<and> ag_negotiation_id a = nid
              \<and> ag_policy_id a = Some ''open-access''
              \<and> ag_policy_description a = ''Allows USE; Prohibits DISTRIBUTE''
              \<and> ag_status a = ''ACTIVE''"
    by simp_all
qed

text \<open>
  Claim C10, witness: a store whose only asset has no \<open>policy_id\<close>, and a request for
  that asset that gives no attributes, so that the action asked for is \<open>USE\<close>; then the
  negotiation as it is filed, offered, and finalized once it is verified.
\<close>

theorem missing_policy_id_binds_open_access_witness:
  "get_asset_by_id unbound_asset_store (rq_asset_id unbound_asset_request) =
     Some \<lparr>a_id = ''legacy-asset'', a_name = ''Legacy data'',
           a_policy_id = None, a_data_file = None\<rparr>
   \<and> \<not> isl (fst (initiate_negotiation unbound_asset_request ''0a1b2c3d4e5f'' fixed_clock
                     unbound_asset_store))
   \<and> bound_to (snd (initiate_negotiation unbound_asset_request ''0a1b2c3d4e5f'' fixed_clock
                      unbound_asset_store))
        ''negotiation-0a1b2c3d'' ''open-access''
   \<and> ascii_context []
   \<and> action_matches ''USE'' (request_action []) = Inr True
   \<and> evaluate OPEN_ACCESS_POLICY [] =
       Inr \<lparr>allowed = True, reason = ''Permission granted (no constraints)'',
            evaluated_constraints = []\<rparr>
   \<and> store_inv (unbound_asset_negotiation_store REQUESTED)
   \<and> bound_to (unbound_asset_negotiation_store REQUESTED) ''negotiation-0a1b2c3d''
        ''open-access''
   \<and> bound_to (snd (handle sample_files (ConsumerAgree ''negotiation-0a1b2c3d'') fixed_clock
                      (unbound_asset_negotiation_store REQUESTED)))
        ''negotiation-0a1b2c3d'' ''open-access''
   \<and> negotiations (unbound_asset_negotiation_store REQUESTED) ''negotiation-0a1b2c3d'' =
       Some (unbound_asset_negotiation REQUESTED)
   \<and> \<not> isl (fst (provider_offer ''negotiation-0a1b2c3d'' None fixed_clock
                     (unbound_asset_negotiation_store REQUESTED)))
   \<and> (\<exists>n'. negotiations
               (snd (provider_offer ''negotiation-0a1b2c3d'' None fixed_clock
                       (unbound_asset_negotiation_store REQUESTED)))
               ''negotiation-0a1b2c3d'' = Some n'
            \<and> n_state n' = OFFERED \<and> n_policy_id n' = Some ''open-access'')
   \<and> negotiations (unbound_asset_negotiation_store VERIFIED) ''negotiation-0a1b2c3d'' =
       Some (unbound_asset_negotiation VERIFIED)
   \<and> \<not> isl (fst (finalize_agreement ''negotiation-0a1b2c3d'' ''4e5f6a7b8c9d'' fixed_clock
                     (unbound_asset_negotiation_store VERIFIED)))
   \<and> (\<exists>a. agreements
              (snd (finalize_agreement ''negotiation-0a1b2c3d'' ''4e5f6a7b8c9d'' fixed_clock
                      (unbound_asset_negotiation_store VERIFIED)))
              ''agreement-4e5f6a7b'' = Some a
           \<and> ag_policy_id a = Some ''open-access''
           \<and> ag_policy_description a = ''Allows USE; Prohibits DISTRIBUTE''
           \<and> ag_status a = ''ACTIVE'')"
proof -
  let ?nid = "''negotiation-0a1b2c3d''"
  let ?t = "unbound_asset_negotiation_store REQUESTED"
  let ?v = "unbound_asset_negotiation_store VERIFIED"
  have h1: "get_asset_by_id unbound_asset_store (rq_asset_id unbound_asset_request) =
     Some \<lparr>a_id = ''legacy-asset'', a_name = ''Legacy data'',
           a_policy_id = None, a_data_file = None\<rparr>"
    by (simp add: get_asset_by_id_def unbound_asset_store_def unbound_asset_request_def)
  have h2: "a_policy_id \<lparr>a_id = ''legacy-asset'', a_name = ''Legacy data'',
           a_policy_id = None, a_data_file = None\<rparr> = None"
    by simp
  note T = missing_policy_id_binds_open_access
             [OF h1 h2, where u = "''0a1b2c3d4e5f''" and clk = fixed_clock
                and files = sample_files]
  have c1: "ascii_context []"
    by (simp add: ascii_defs)
  have c2: "action_matches ''USE'' (request_action []) = Inr True"
    by (simp add: request_action_def)
  have p1: "store_inv ?t"
    by (simp add: store_inv_def unbound_asset_negotiation_store_def unbound_asset_store_def
        initialize_store_def unbound_asset_negotiation_def)
  have p2: "bound_to ?t ?nid ''open-access''"
    by (simp add: bound_to_def unbound_asset_negotiation_store_def
        unbound_asset_negotiation_def)
  have o1: "negotiations ?t ?nid = Some (unbound_asset_negotiation REQUESTED)"
    by (simp add: unbound_asset_negotiation_store_def)
  have o2: "n_state (unbound_asset_negotiation REQUESTED) = REQUESTED"
    "n_policy_id (unbound_asset_negotiation REQUESTED) = Some ''open-access''"
    "n_consumer_attributes (unbound_asset_negotiation REQUESTED) = Some []"
    by (simp_all add: unbound_asset_negotiation_def)
  have f1: "negotiations ?v ?nid = Some (unbound_asset_negotiation VERIFIED)"
    by (simp add: unbound_asset_negotiation_store_def)
  have f2: "n_state (unbound_asset_negotiation VERIFIED) = VERIFIED"
    "n_policy_id (unbound_asset_negotiation VERIFIED) = Some ''open-access''"
    by (simp_all add: unbound_asset_negotiation_def)
  from T have init: "\<not> isl (fst (initiate_negotiation unbound_asset_request ''0a1b2c3d4e5f''
                                   fixed_clock unbound_asset_store))"
    and bound: "bound_to (snd (initiate_negotiation unbound_asset_request ''0a1b2c3d4e5f''
                                 fixed_clock unbound_asset_store))
                  ?nid ''open-access''"
    by simp_all
  from T have grants: "\<forall>ctx. ascii_context ctx
            \<and> action_matches ''USE'' (request_action ctx) = Inr True
            \<longrightarrow> evaluate OPEN_ACCESS_POLICY ctx =
                  Inr \<lparr>allowed = True, reason = ''Permission granted (no constraints)'',
                       evaluated_constraints = []\<rparr>"
    by blast
  from T have keeps: "\<forall>t nid call c.
             store_inv t \<and> draws_unused call t \<and> ascii_call call \<and> call \<noteq> ResetDemo
             \<and> bound_to t nid ''open-access''
            \<longrightarrow> bound_to (snd (handle sample_files call c t)) nid ''open-access''"
    by blast
  from T have offers: "\<forall>t nid n action ctx c.
             negotiations t nid = Some n \<and> n_state n = REQUESTED
             \<and> n_policy_id n = Some ''open-access''
             \<and> (case action of
                   Some a \<Rightarrow> na_consumer_attributes a
                 | None \<Rightarrow> (case n_consumer_attributes n of
                              None \<Rightarrow> Some [] | Some attrs \<Rightarrow> Some attrs)) = Some ctx
             \<and> ascii_context ctx
             \<and> action_matches ''USE'' (request_action ctx) = Inr True
            \<longrightarrow> \<not> isl (fst (provider_offer nid action c t))
                \<and> (\<exists>n'. negotiations (snd (provider_offer nid action c t)) nid = Some n'
                         \<and> n_state n' = OFFERED \<and> n_policy_id n' = Some ''open-access''
                         \<and> n_policy_evaluation n' =
                             Some \<lparr>se_allowed = True, se_reason = None,
                                   se_evaluated_constraints = []\<rparr>)"
    by blast
  from T have finalizes: "\<forall>t nid n v c.
             negotiations t nid = Some n \<and> n_state n = VERIFIED
             \<and> n_policy_id n = Some ''open-access''
            \<longrightarrow> \<not> isl (fst (finalize_agreement nid v c t))
                \<and> (\<exists>a. agreements (snd (finalize_agreement nid v c t))
                           (''agreement-'' @ take 8 v) = Some a
                       \<and> ag_negotiation_id a = nid
                       \<and> ag_policy_id a = Some ''open-access''
                       \<and> ag_policy_description a = ''Allows USE; Prohibits DISTRIBUTE''
                       \<and> ag_status a = ''ACTIVE'')"
    by blast
  have g: "evaluate OPEN_ACCESS_POLICY [] =
       Inr \<lparr>allowed = True, reason = ''Permission granted (no constraints)'',
            evaluated_constraints = []\<rparr>"
    using grants [rule_format, of "[]"] c1 c2 by simp
  have k: "bound_to (snd (handle sample_files (ConsumerAgree ?nid) fixed_clock ?t)) ?nid
             ''open-access''"
    using keeps [rule_format, of ?t "ConsumerAgree ?nid" ?nid fixed_clock] p1 p2 by simp
  have o: "\<not> isl (fst (provider_offer ?nid None fixed_clock ?t))
       \<and> (\<exists>n'. negotiations (snd (provider_offer ?nid None fixed_clock ?t)) ?nid = Some n'
                \<and> n_state n' = OFFERED \<and> n_policy_id n' = Some ''open-access'')"
    using offers [rule_format, of ?t ?nid "unbound_asset_negotiation REQUESTED" None "[]"
        fixed_clock] o1 o2 c1 c2
    by auto
  have f: "\<not> isl (fst (finalize_agreement ?nid ''4e5f6a7b8c9d'' fixed_clock ?v))
       \<and> (\<exists>a. agreements (snd (finalize_agreement ?nid ''4e5f6a7b8c9d'' fixed_clock ?v))
                  ''agreement-4e5f6a7b'' = Some a
              \<and> ag_policy_id a = Some ''open-access''
              \<and> ag_policy_description a = ''Allows USE; Prohibits DISTRIBUTE''
              \<and> ag_status a = ''ACTIVE'')"
    using finalizes [rule_format, of ?v ?nid "unbound_asset_negotiation VERIFIED"
        "''4e5f6a7b8c9d''" fixed_clock] f1 f2
    by auto
  show ?thesis
    using h1 init bound c1 c2 g p1 p2 k o1 o f1 f by simp
qed

end
